theory Spec2Isabelle
  imports Complex_Main "HOL-Library.List_Lexorder" "HOL-Library.Char_ord"
begin

section \<open>Tables\<close>

text \<open>
  A pandas DataFrame is modelled column-wise, as the ordered list of its named columns.
  A column carries its dtype together with its cells, so that a cell that the dtype
  cannot hold does not exist in the model:
  \<^item> \<open>Int64\<close>: numpy \<open>int64\<close>, which has no missing marker;
  \<^item> \<open>Float64\<close>: numpy \<open>float64\<close>, \<open>None\<close> standing for NaN; finite floats are
    idealised as reals;
  \<^item> \<open>Object\<close>: dtype \<open>object\<close> holding Python strings, \<open>None\<close> standing for None/NaN;
  \<^item> \<open>Category\<close>: a pandas Categorical, as its list of categories and the codes of the
    cells (\<open>None\<close> is the missing code -1), the result type of \<open>pd.cut\<close>;
  \<^item> \<open>Datetime64\<close>: \<open>datetime64[ns]\<close> as the integer time stamp, \<open>None\<close> standing for NaT,
    the result type of \<open>pd.to_datetime\<close>.
  Strings are byte strings: a non-ASCII letter of the source is its UTF-8 bytes.
  The library behaviour written into the definitions is that of pandas 2.x.
\<close>

datatype coldata =
    Int64 "int list"
  | Float64 "real option list"
  | Object "string option list"
  | Category "string list" "nat option list"
  | Datetime64 "int option list"

type_synonym table = "(string \<times> coldata) list"

text \<open>
  Exceptions of the source become values. \<open>Unsupported\<close> is not a Python exception: it
  marks a call whose outcome in pandas is outside the fragment modelled here.
\<close>

datatype error = KeyError | TypeError | ValueError | Unsupported

section \<open>Binning: \<open>pd.cut(x, bins, labels, right=False)\<close>\<close>

text \<open>
  A bin edge is a finite number or \<open>float('inf')\<close>. With \<open>right=False\<close> pandas calls
  \<open>bins.searchsorted(x, side='right')\<close>, the number of leading edges that are \<open>\<le> x\<close>;
  an index of \<open>0\<close> or \<open>len(bins)\<close> and a missing \<open>x\<close> give a missing result, every other
  index \<open>i\<close> gives the label number \<open>i - 1\<close>.
\<close>

datatype edge = Fin real | PInf

fun edge_le :: "edge \<Rightarrow> real \<Rightarrow> bool" where
  "edge_le (Fin b) x = (b \<le> x)"
| "edge_le PInf x = False"

definition searchsorted_right :: "edge list \<Rightarrow> real \<Rightarrow> nat" where
  "searchsorted_right bins x = length (takeWhile (\<lambda>b. edge_le b x) bins)"

definition cut_code :: "edge list \<Rightarrow> real option \<Rightarrow> nat option" where
  "cut_code bins x =
     (case x of
        None \<Rightarrow> None
      | Some v \<Rightarrow>
          (let ids = searchsorted_right bins v
           in if ids = 0 \<or> ids = length bins then None else Some (ids - 1)))"

definition has_present :: "'a option list \<Rightarrow> bool" where
  "has_present xs = list_ex (\<lambda>x. x \<noteq> None) xs"

fun cut :: "coldata \<Rightarrow> edge list \<Rightarrow> string list \<Rightarrow> error + coldata" where
  "cut (Int64 xs) bins labels =
     Inr (Category labels (map (\<lambda>x. cut_code bins (Some (real_of_int x))) xs))"
| "cut (Float64 xs) bins labels = Inr (Category labels (map (cut_code bins) xs))"
| "cut (Object xs) bins labels = (if has_present xs then Inl TypeError else Inl Unsupported)"
| "cut (Category cs xs) bins labels = Inl Unsupported"
| "cut (Datetime64 xs) bins labels = Inl ValueError"

definition idade_bins :: "edge list" where
  "idade_bins = [Fin 0, Fin 18, Fin 25, Fin 35, Fin 45, Fin 55, Fin 65, Fin 100]"

definition idade_labels :: "string list" where
  "idade_labels = [''<18'', ''18-24'', ''25-34'', ''35-44'', ''45-54'', ''55-64'', ''65+'']"

definition salario_bins :: "edge list" where
  "salario_bins = [Fin 0, Fin 1100, Fin 2200, Fin 3300, Fin 5000, Fin 10000, PInf]"

definition salario_labels :: "string list" where
  "salario_labels =
     [''At'' @ [CHR 0xC3, CHR 0xA9] @ '' 1 SM'', ''1-2 SM'', ''2-3 SM'', ''3-5 SM'',
      ''5-10 SM'', ''10+ SM'']"

text \<open>The label a categorical cell shows: the category its code stands for.\<close>

definition label_of :: "string list \<Rightarrow> nat option \<Rightarrow> string option" where
  "label_of cats c =
     (case c of None \<Rightarrow> None | Some i \<Rightarrow> if i < length cats then Some (cats ! i) else None)"

text \<open>
  The brackets as the specification lists them: half-open intervals \<open>[lo, hi)\<close>, the last
  salary bracket unbounded above.
\<close>

definition idade_brackets :: "(real \<times> real) list" where
  "idade_brackets = [(0, 18), (18, 25), (25, 35), (35, 45), (45, 55), (55, 65), (65, 100)]"

definition in_idade_bracket :: "nat \<Rightarrow> real \<Rightarrow> bool" where
  "in_idade_bracket i a =
     (i < length idade_brackets \<and> fst (idade_brackets ! i) \<le> a \<and> a < snd (idade_brackets ! i))"

definition salario_brackets :: "(real \<times> real option) list" where
  "salario_brackets =
     [(0, Some 1100), (1100, Some 2200), (2200, Some 3300), (3300, Some 5000),
      (5000, Some 10000), (10000, None)]"

definition in_salario_bracket :: "nat \<Rightarrow> real \<Rightarrow> bool" where
  "in_salario_bracket i s =
     (i < length salario_brackets \<and> fst (salario_brackets ! i) \<le> s \<and>
      (case snd (salario_brackets ! i) of None \<Rightarrow> True | Some hi \<Rightarrow> s < hi))"

section \<open>Cells and rows\<close>

text \<open>
  The row-wise view of a table. A cell is missing or holds an integer, a float, a string
  or a time stamp; a cell of a categorical column shows its category (a code outside the
  categories shows as missing).
\<close>

datatype cell = NA | IntC int | FloatC real | StrC string | DateC int

fun cells :: "coldata \<Rightarrow> cell list" where
  "cells (Int64 xs) = map IntC xs"
| "cells (Float64 xs) = map (\<lambda>x. case x of None \<Rightarrow> NA | Some v \<Rightarrow> FloatC v) xs"
| "cells (Object xs) = map (\<lambda>x. case x of None \<Rightarrow> NA | Some s \<Rightarrow> StrC s) xs"
| "cells (Category cs xs) =
     map (\<lambda>c. case label_of cs c of None \<Rightarrow> NA | Some s \<Rightarrow> StrC s) xs"
| "cells (Datetime64 xs) = map (\<lambda>x. case x of None \<Rightarrow> NA | Some t \<Rightarrow> DateC t) xs"

fun col_len :: "coldata \<Rightarrow> nat" where
  "col_len (Int64 xs) = length xs"
| "col_len (Float64 xs) = length xs"
| "col_len (Object xs) = length xs"
| "col_len (Category cs xs) = length xs"
| "col_len (Datetime64 xs) = length xs"

definition nrows :: "table \<Rightarrow> nat" where
  "nrows df = (case df of [] \<Rightarrow> 0 | (n, c) # _ \<Rightarrow> col_len c)"

text \<open>All columns of a DataFrame have the length of its index.\<close>

definition rectangular :: "table \<Rightarrow> bool" where
  "rectangular df = list_all (\<lambda>(n, c). col_len c = nrows df) df"

type_synonym row = "(string \<times> cell) list"

definition row_at :: "table \<Rightarrow> nat \<Rightarrow> row" where
  "row_at df i = map (\<lambda>(n, c). (n, cells c ! i)) df"

definition rows :: "table \<Rightarrow> row list" where
  "rows df = map (row_at df) [0..<nrows df]"

section \<open>\<open>DataProcessor.filter_data\<close>\<close>

text \<open>
  The values of the filter dictionary: a Python scalar (an \<open>int\<close>, a finite \<open>float\<close> or a
  \<open>str\<close>), a list of scalars or a tuple of scalars. The dictionary is the list of its
  items in insertion order.
\<close>

datatype pyval = VInt int | VFloat real | VStr string

datatype fvalue = Scalar pyval | ListV "pyval list" | TupleV "pyval list"

text \<open>\<open>isinstance(v, (int, float))\<close>, with the number read.\<close>

fun as_number :: "pyval \<Rightarrow> real option" where
  "as_number (VInt i) = Some (real_of_int i)"
| "as_number (VFloat r) = Some r"
| "as_number (VStr s) = None"

text \<open>\<open>len(value) == 2 and all(isinstance(v, (int, float)) for v in value)\<close>\<close>

fun pair_of :: "pyval list \<Rightarrow> (real \<times> real) option" where
  "pair_of [a, b] =
     (case as_number a of
        None \<Rightarrow> None
      | Some lo \<Rightarrow> (case as_number b of None \<Rightarrow> None | Some hi \<Rightarrow> Some (lo, hi)))"
| "pair_of vs = None"

text \<open>The whole test of the first branch; a scalar is neither a list nor a tuple.\<close>

fun numeric_pair :: "fvalue \<Rightarrow> (real \<times> real) option" where
  "numeric_pair (Scalar p) = None"
| "numeric_pair (ListV vs) = pair_of vs"
| "numeric_pair (TupleV vs) = pair_of vs"

text \<open>
  \<open>series >= v\<close> and \<open>series <= v\<close> for a number \<open>v\<close>. A missing cell compares false. A
  string cell cannot be ordered against a number (TypeError from the element-wise
  comparison, so only when the column holds a string); categorical and datetime columns
  reject the comparison with a number as a whole.
\<close>

fun ge_mask :: "coldata \<Rightarrow> real \<Rightarrow> error + bool list" where
  "ge_mask (Int64 xs) v = Inr (map (\<lambda>x. v \<le> real_of_int x) xs)"
| "ge_mask (Float64 xs) v = Inr (map (\<lambda>x. case x of None \<Rightarrow> False | Some y \<Rightarrow> v \<le> y) xs)"
| "ge_mask (Object xs) v = (if has_present xs then Inl TypeError else Inr (map (\<lambda>x. False) xs))"
| "ge_mask (Category cs xs) v = Inl TypeError"
| "ge_mask (Datetime64 xs) v = Inl TypeError"

fun le_mask :: "coldata \<Rightarrow> real \<Rightarrow> error + bool list" where
  "le_mask (Int64 xs) v = Inr (map (\<lambda>x. real_of_int x \<le> v) xs)"
| "le_mask (Float64 xs) v = Inr (map (\<lambda>x. case x of None \<Rightarrow> False | Some y \<Rightarrow> y \<le> v) xs)"
| "le_mask (Object xs) v = (if has_present xs then Inl TypeError else Inr (map (\<lambda>x. False) xs))"
| "le_mask (Category cs xs) v = Inl TypeError"
| "le_mask (Datetime64 xs) v = Inl TypeError"

text \<open>\<open>(series >= lo) & (series <= hi)\<close>: both comparisons are evaluated, then combined.\<close>

definition range_mask :: "coldata \<Rightarrow> real \<Rightarrow> real \<Rightarrow> error + bool list" where
  "range_mask col lo hi =
     (case ge_mask col lo of
        Inl e \<Rightarrow> Inl e
      | Inr a \<Rightarrow> (case le_mask col hi of Inl e \<Rightarrow> Inl e | Inr b \<Rightarrow> Inr (map2 (\<and>) a b)))"

text \<open>Python equality of a number with a scalar: \<open>1 == 1.0\<close>, and no number equals a string.\<close>

fun num_eq :: "real \<Rightarrow> pyval \<Rightarrow> bool" where
  "num_eq x (VInt j) = (x = real_of_int j)"
| "num_eq x (VFloat r) = (x = r)"
| "num_eq x (VStr s) = False"

text \<open>
  \<open>series.isin(values)\<close>: a missing cell is in no list of scalars. Against a datetime
  column pandas parses strings as dates, which is outside the model.
\<close>

fun isin :: "coldata \<Rightarrow> pyval list \<Rightarrow> error + bool list" where
  "isin (Int64 xs) vs = Inr (map (\<lambda>x. list_ex (num_eq (real_of_int x)) vs) xs)"
| "isin (Float64 xs) vs =
     Inr (map (\<lambda>x. case x of None \<Rightarrow> False | Some y \<Rightarrow> list_ex (num_eq y) vs) xs)"
| "isin (Object xs) vs =
     Inr (map (\<lambda>x. case x of None \<Rightarrow> False | Some s \<Rightarrow> VStr s \<in> set vs) xs)"
| "isin (Category cs xs) vs =
     Inr (map (\<lambda>c. case label_of cs c of None \<Rightarrow> False | Some s \<Rightarrow> VStr s \<in> set vs) xs)"
| "isin (Datetime64 xs) vs = Inl Unsupported"

text \<open>
  \<open>series == value\<close> for a scalar. A numeric column against a string and a string or
  categorical column against a number are all false; a datetime column against a string
  parses the string as a date, which is outside the model.
\<close>

fun eq_scalar :: "coldata \<Rightarrow> pyval \<Rightarrow> error + bool list" where
  "eq_scalar (Int64 xs) p = Inr (map (\<lambda>x. num_eq (real_of_int x) p) xs)"
| "eq_scalar (Float64 xs) p =
     Inr (map (\<lambda>x. case x of None \<Rightarrow> False | Some y \<Rightarrow> num_eq y p) xs)"
| "eq_scalar (Object xs) p =
     Inr (map (\<lambda>x. case x of None \<Rightarrow> False | Some s \<Rightarrow> p = VStr s) xs)"
| "eq_scalar (Category cs xs) p =
     Inr (map (\<lambda>c. case label_of cs c of None \<Rightarrow> False | Some s \<Rightarrow> p = VStr s) xs)"
| "eq_scalar (Datetime64 xs) p =
     (case p of VStr s \<Rightarrow> Inl Unsupported | _ \<Rightarrow> Inr (map (\<lambda>x. False) xs))"

text \<open>
  \<open>series == value\<close> for a tuple. An object column compares every cell with the whole
  tuple, and no string equals a tuple. For the other dtypes the comparison goes through
  numpy broadcasting and depends on the lengths and the library version: not modelled.
\<close>

fun eq_tuple :: "coldata \<Rightarrow> pyval list \<Rightarrow> error + bool list" where
  "eq_tuple (Object xs) vs = Inr (map (\<lambda>x. False) xs)"
| "eq_tuple col vs = Inl Unsupported"

text \<open>The three branches of the loop body, in the order of the source.\<close>

definition apply_filter :: "coldata \<Rightarrow> fvalue \<Rightarrow> error + bool list" where
  "apply_filter col v =
     (case numeric_pair v of
        Some (lo, hi) \<Rightarrow> range_mask col lo hi
      | None \<Rightarrow>
          (case v of
             ListV vs \<Rightarrow> isin col vs
           | TupleV vs \<Rightarrow> eq_tuple col vs
           | Scalar p \<Rightarrow> eq_scalar col p))"

text \<open>Boolean indexing \<open>df[mask]\<close>: the rows whose mask entry is true, in every column.\<close>

definition take_mask :: "bool list \<Rightarrow> 'a list \<Rightarrow> 'a list" where
  "take_mask m xs = map snd (filter fst (zip m xs))"

fun boolean_index :: "bool list \<Rightarrow> coldata \<Rightarrow> coldata" where
  "boolean_index m (Int64 xs) = Int64 (take_mask m xs)"
| "boolean_index m (Float64 xs) = Float64 (take_mask m xs)"
| "boolean_index m (Object xs) = Object (take_mask m xs)"
| "boolean_index m (Category cs xs) = Category cs (take_mask m xs)"
| "boolean_index m (Datetime64 xs) = Datetime64 (take_mask m xs)"

definition select_rows :: "bool list \<Rightarrow> table \<Rightarrow> table" where
  "select_rows m df = map (\<lambda>(n, c). (n, boolean_index m c)) df"

fun filter_data :: "table \<Rightarrow> (string \<times> fvalue) list \<Rightarrow> error + table" where
  "filter_data df [] = Inr df"
| "filter_data df ((column, v) # filters) =
     (case map_of df column of
        None \<Rightarrow> filter_data df filters
      | Some col \<Rightarrow>
          (case apply_filter col v of
             Inl e \<Rightarrow> Inl e
           | Inr m \<Rightarrow> filter_data (select_rows m df) filters))"

text \<open>
  What it means for a cell to satisfy a predicate value, read off the three shapes: a
  two-element numeric pair is the closed range, a list is membership, a scalar is equality
  (Python equality, so \<open>1 == 1.0\<close>); no cell of a table equals a tuple.
\<close>

fun cell_number :: "cell \<Rightarrow> real option" where
  "cell_number (IntC i) = Some (real_of_int i)"
| "cell_number (FloatC r) = Some r"
| "cell_number c = None"

fun cell_eq :: "cell \<Rightarrow> pyval \<Rightarrow> bool" where
  "cell_eq (IntC i) p = num_eq (real_of_int i) p"
| "cell_eq (FloatC r) p = num_eq r p"
| "cell_eq (StrC s) p = (p = VStr s)"
| "cell_eq c p = False"

definition in_range :: "real \<Rightarrow> real \<Rightarrow> cell \<Rightarrow> bool" where
  "in_range lo hi c = (case cell_number c of None \<Rightarrow> False | Some x \<Rightarrow> lo \<le> x \<and> x \<le> hi)"

definition satisfies :: "fvalue \<Rightarrow> cell \<Rightarrow> bool" where
  "satisfies v c =
     (case numeric_pair v of
        Some (lo, hi) \<Rightarrow> in_range lo hi c
      | None \<Rightarrow>
          (case v of
             ListV vs \<Rightarrow> list_ex (cell_eq c) vs
           | TupleV vs \<Rightarrow> False
           | Scalar p \<Rightarrow> cell_eq c p))"

text \<open>A row passes when it satisfies every predicate whose column the table has.\<close>

definition row_ok :: "(string \<times> fvalue) list \<Rightarrow> row \<Rightarrow> bool" where
  "row_ok filters r =
     list_all (\<lambda>(column, v). case map_of r column of None \<Rightarrow> True | Some c \<Rightarrow> satisfies v c)
       filters"

text \<open>
  The predicates that pandas evaluates without an exception, by the dtype of the column
  alone: a range needs a numeric column; membership and equality with a string need a
  column other than datetime; equality with a tuple needs an object column.
\<close>

fun is_numeric_col :: "coldata \<Rightarrow> bool" where
  "is_numeric_col (Int64 xs) = True"
| "is_numeric_col (Float64 xs) = True"
| "is_numeric_col col = False"

fun is_datetime_col :: "coldata \<Rightarrow> bool" where
  "is_datetime_col (Datetime64 xs) = True"
| "is_datetime_col col = False"

fun is_object_col :: "coldata \<Rightarrow> bool" where
  "is_object_col (Object xs) = True"
| "is_object_col col = False"

definition pred_typed :: "coldata \<Rightarrow> fvalue \<Rightarrow> bool" where
  "pred_typed col v =
     (case numeric_pair v of
        Some (lo, hi) \<Rightarrow> is_numeric_col col
      | None \<Rightarrow>
          (case v of
             ListV vs \<Rightarrow> \<not> is_datetime_col col
           | TupleV vs \<Rightarrow> is_object_col col
           | Scalar p \<Rightarrow> (case p of VStr s \<Rightarrow> \<not> is_datetime_col col | _ \<Rightarrow> True)))"

definition filters_typed :: "table \<Rightarrow> (string \<times> fvalue) list \<Rightarrow> bool" where
  "filters_typed df filters =
     list_all (\<lambda>(column, v). case map_of df column of None \<Rightarrow> True | Some col \<Rightarrow> pred_typed col v)
       filters"

section \<open>\<open>DataProcessor._handle_missing_values\<close>\<close>

text \<open>\<open>series.isnull().sum()\<close> and the values that are present, in column order.\<close>

definition isnull_sum :: "'a option list \<Rightarrow> nat" where
  "isnull_sum xs = length (filter (\<lambda>x. x = None) xs)"

fun present :: "'a option list \<Rightarrow> 'a list" where
  "present [] = []"
| "present (None # xs) = present xs"
| "present (Some x # xs) = x # present xs"

text \<open>\<open>series.fillna(v)\<close>; filling with NaN (\<open>None\<close>) leaves the column as it is.\<close>

definition fillna :: "'a option \<Rightarrow> 'a option list \<Rightarrow> 'a option list" where
  "fillna v xs = map (\<lambda>x. case x of None \<Rightarrow> v | Some y \<Rightarrow> Some y) xs"

text \<open>
  \<open>series.median()\<close> skips the missing values, so it is taken over \<open>present xs\<close>. As numpy
  does, it sorts and averages the slice of the middle: one element for an odd count, two
  for an even count. The median of nothing is NaN.
\<close>

definition median :: "real list \<Rightarrow> real option" where
  "median xs =
     (if xs = [] then None
      else
        (let s = sort xs; n = length s; h = n div 2;
             middle = (if n mod 2 = 0 then [s ! (h - 1), s ! h] else [s ! h])
         in Some (sum_list middle / real (length middle))))"

text \<open>
  \<open>series.mode()\<close>: the values with the highest count among the present ones, SORTED
  (pandas sorts the modes; for a categorical the order is that of the categories, which
  is the order of the codes). \<open>mode()[0]\<close> is the label \<open>0\<close> of that result and raises
  \<open>KeyError\<close> when the result is empty.
\<close>

definition mode :: "'a::linorder list \<Rightarrow> 'a list" where
  "mode xs =
     (let top = fold (\<lambda>x. max (count_list xs x)) xs 0
      in sort (filter (\<lambda>x. count_list xs x = top) (remdups xs)))"

definition mode_0 :: "'a::linorder list \<Rightarrow> error + 'a" where
  "mode_0 xs = (case mode xs of [] \<Rightarrow> Inl KeyError | v # vs \<Rightarrow> Inr v)"

text \<open>
  The first loop, over \<open>select_dtypes(include=['int64', 'float64'])\<close>. An \<open>int64\<close> column
  has no missing value, so its test is false.
\<close>

fun fill_numeric :: "coldata \<Rightarrow> coldata" where
  "fill_numeric (Float64 xs) =
     (if isnull_sum xs > 0 then Float64 (fillna (median (present xs)) xs) else Float64 xs)"
| "fill_numeric col = col"

text \<open>The second loop, over \<open>select_dtypes(include=['object', 'category'])\<close>.\<close>

fun fill_categorical :: "coldata \<Rightarrow> error + coldata" where
  "fill_categorical (Object xs) =
     (if isnull_sum xs > 0
      then (case mode_0 (present xs) of
              Inl e \<Rightarrow> Inl e
            | Inr v \<Rightarrow> Inr (Object (fillna (Some v) xs)))
      else Inr (Object xs))"
| "fill_categorical (Category cs xs) =
     (if isnull_sum xs > 0
      then (case mode_0 (present xs) of
              Inl e \<Rightarrow> Inl e
            | Inr v \<Rightarrow> Inr (Category cs (fillna (Some v) xs)))
      else Inr (Category cs xs))"
| "fill_categorical col = Inr col"

fun fill_categorical_cols :: "table \<Rightarrow> error + table" where
  "fill_categorical_cols [] = Inr []"
| "fill_categorical_cols ((n, c) # df) =
     (case fill_categorical c of
        Inl e \<Rightarrow> Inl e
      | Inr c' \<Rightarrow>
          (case fill_categorical_cols df of
             Inl e \<Rightarrow> Inl e
           | Inr df' \<Rightarrow> Inr ((n, c') # df')))"

definition handle_missing_values :: "table \<Rightarrow> error + table" where
  "handle_missing_values df = fill_categorical_cols (map (\<lambda>(n, c). (n, fill_numeric c)) df)"

section \<open>\<open>DataProcessor._decode_categorical\<close>\<close>

definition sexo_mapping :: "(string \<times> string) list" where
  "sexo_mapping = [(''1'', ''Masculino''), (''2'', ''Feminino'')]"

definition grau_instrucao_mapping :: "(int \<times> string) list" where
  "grau_instrucao_mapping =
     [(1, ''Analfabeto''),
      (2, ''At'' @ [CHR 0xC3, CHR 0xA9] @ '' 5'' @ [CHR 0xC2, CHR 0xAA] @ '' Incompleto''),
      (3, ''5'' @ [CHR 0xC2, CHR 0xAA] @ '' Completo Fundamental''),
      (4, ''6'' @ [CHR 0xC2, CHR 0xAA] @ '' a 9'' @ [CHR 0xC2, CHR 0xAA] @ '' Fundamental''),
      (5, ''Fundamental Completo''),
      (6, ''M'' @ [CHR 0xC3, CHR 0xA9] @ ''dio Incompleto''),
      (7, ''M'' @ [CHR 0xC3, CHR 0xA9] @ ''dio Completo''),
      (8, ''Superior Incompleto''),
      (9, ''Superior Completo'')]"

definition tipo_movimentacao_mapping :: "(int \<times> string) list" where
  "tipo_movimentacao_mapping =
     [(1, ''Admiss'' @ [CHR 0xC3, CHR 0xA3] @ ''o''),
      (2, ''Desligamento''),
      (3, ''Transfer'' @ [CHR 0xC3, CHR 0xAA] @ ''ncia'')]"

text \<open>
  \<open>series.map(dict)\<close>: every cell is looked up as a key, a cell that is no key gives NaN,
  and the result has dtype \<open>object\<close>. A dictionary with string keys matches only string
  cells; one with integer keys matches integers and the floats equal to an integer
  (\<open>7.0 == 7\<close>).

  For a categorical source pandas maps the categories instead of the cells
  (\<open>Categorical.map\<close>). When every category is a key and the looked-up values are pairwise
  different, the result is again categorical, with the looked-up values as categories
  and the codes unchanged. Otherwise the looked-up values are taken cell by cell, and the
  dtype is inferred: \<open>float64\<close> when no category is a key (all cells NaN), \<open>object\<close> when
  some are.
\<close>

definition map_categories :: "string option list \<Rightarrow> nat option list \<Rightarrow> coldata" where
  "map_categories new_categories codes =
     (if list_all (\<lambda>v. v \<noteq> None) new_categories \<and> distinct new_categories
      then Category (map the new_categories) codes
      else if list_all (\<lambda>v. v = None) new_categories
      then Float64 (map (\<lambda>c. None) codes)
      else Object (map (\<lambda>c. case c of
                               None \<Rightarrow> None
                             | Some k \<Rightarrow> if k < length new_categories then new_categories ! k
                                         else None) codes))"

fun map_str_keys :: "(string \<times> string) list \<Rightarrow> coldata \<Rightarrow> coldata" where
  "map_str_keys d (Object xs) =
     Object (map (\<lambda>x. case x of None \<Rightarrow> None | Some s \<Rightarrow> map_of d s) xs)"
| "map_str_keys d (Category cs xs) = map_categories (map (map_of d) cs) xs"
| "map_str_keys d (Int64 xs) = Object (map (\<lambda>x. None) xs)"
| "map_str_keys d (Float64 xs) = Object (map (\<lambda>x. None) xs)"
| "map_str_keys d (Datetime64 xs) = Object (map (\<lambda>x. None) xs)"

text \<open>The categories of the model are strings, none of which is an integer key.\<close>

fun map_int_keys :: "(int \<times> string) list \<Rightarrow> coldata \<Rightarrow> coldata" where
  "map_int_keys d (Int64 xs) = Object (map (\<lambda>x. map_of d x) xs)"
| "map_int_keys d (Float64 xs) =
     Object (map (\<lambda>x. case x of
                        None \<Rightarrow> None
                      | Some r \<Rightarrow> if real_of_int \<lfloor>r\<rfloor> = r then map_of d \<lfloor>r\<rfloor> else None) xs)"
| "map_int_keys d (Object xs) = Object (map (\<lambda>x. None) xs)"
| "map_int_keys d (Category cs xs) = map_categories (map (\<lambda>c. None) cs) xs"
| "map_int_keys d (Datetime64 xs) = Object (map (\<lambda>x. None) xs)"

text \<open>\<open>df[name] = col\<close>: replaces the column of that name in place, or appends a new one.\<close>

fun assign :: "string \<Rightarrow> coldata \<Rightarrow> table \<Rightarrow> table" where
  "assign name col [] = [(name, col)]"
| "assign name col ((n, c) # df) =
     (if n = name then (n, col) # df else (n, c) # assign name col df)"

definition decode_categorical :: "table \<Rightarrow> table" where
  "decode_categorical df =
     (let df1 = (case map_of df ''sexo'' of
                   None \<Rightarrow> df
                 | Some c \<Rightarrow> assign ''sexo_desc'' (map_str_keys sexo_mapping c) df);
          df2 = (case map_of df1 ''grau_instrucao'' of
                   None \<Rightarrow> df1
                 | Some c \<Rightarrow>
                     assign ''grau_instrucao_desc'' (map_int_keys grau_instrucao_mapping c) df1)
      in (case map_of df2 ''tipo_movimentacao'' of
            None \<Rightarrow> df2
          | Some c \<Rightarrow>
              assign ''tipo_movimentacao_desc''
                (map_int_keys tipo_movimentacao_mapping c) df2))"

section \<open>\<open>DataProcessor._create_derived_fields\<close>\<close>

text \<open>
  The date column is \<open>pd.to_datetime(ano.astype(str) + '-' + mes.astype(str) + '-01')\<close>.
  String formatting of floats and the date parser of pandas are not modelled: the
  composition is a parameter \<open>to_datetime\<close> of the model, from the two source columns to
  the time stamps or an exception, and every statement below holds for any such function.
\<close>

type_synonym date_parser = "coldata \<Rightarrow> coldata \<Rightarrow> error + int option list"

definition create_derived_fields :: "date_parser \<Rightarrow> table \<Rightarrow> error + table" where
  "create_derived_fields to_datetime df =
     (case (case (map_of df ''ano'', map_of df ''mes'') of
              (Some a, Some m) \<Rightarrow>
                (case to_datetime a m of
                   Inl e \<Rightarrow> Inl e
                 | Inr ts \<Rightarrow> Inr (assign ''data'' (Datetime64 ts) df))
            | _ \<Rightarrow> Inr df) of
        Inl e \<Rightarrow> Inl e
      | Inr df1 \<Rightarrow>
          (case (case map_of df1 ''idade'' of
                   None \<Rightarrow> Inr df1
                 | Some c \<Rightarrow>
                     (case cut c idade_bins idade_labels of
                        Inl e \<Rightarrow> Inl e
                      | Inr b \<Rightarrow> Inr (assign ''faixa_etaria'' b df1))) of
             Inl e \<Rightarrow> Inl e
           | Inr df2 \<Rightarrow>
               (case map_of df2 ''salario'' of
                  None \<Rightarrow> Inr df2
                | Some c \<Rightarrow>
                    (case cut c salario_bins salario_labels of
                       Inl e \<Rightarrow> Inl e
                     | Inr b \<Rightarrow> Inr (assign ''faixa_salarial'' b df2)))))"

section \<open>\<open>DataProcessor.process_data\<close>\<close>

definition process_data :: "date_parser \<Rightarrow> table \<Rightarrow> error + table" where
  "process_data to_datetime df =
     (case handle_missing_values df of
        Inl e \<Rightarrow> Inl e
      | Inr clean \<Rightarrow> create_derived_fields to_datetime (decode_categorical clean))"

text \<open>
  One date parser, to run the pipeline on concrete tables: for integer year and month
  columns with months from 1 to 12 it numbers the months (\<open>12 * year + month - 1\<close>); on
  anything else it gives up.
\<close>

fun month_index :: "date_parser" where
  "month_index (Int64 ys) (Int64 ms) =
     (if list_all (\<lambda>m. 1 \<le> m \<and> m \<le> 12) ms
      then Inr (map (\<lambda>(y, m). Some (12 * y + m - 1)) (zip ys ms))
      else Inl ValueError)"
| "month_index a m = Inl Unsupported"

text \<open>The number of missing cells of a column, \<open>df[c].isnull().sum()\<close>.\<close>

fun null_count :: "coldata \<Rightarrow> nat" where
  "null_count (Int64 xs) = 0"
| "null_count (Float64 xs) = isnull_sum xs"
| "null_count (Object xs) = isnull_sum xs"
| "null_count (Category cs xs) = isnull_sum xs"
| "null_count (Datetime64 xs) = isnull_sum xs"

fun is_categorical_col :: "coldata \<Rightarrow> bool" where
  "is_categorical_col (Object xs) = True"
| "is_categorical_col (Category cs xs) = True"
| "is_categorical_col col = False"

text \<open>The columns that decoding and derivation write.\<close>

definition derived_columns :: "string list" where
  "derived_columns =
     [''sexo_desc'', ''grau_instrucao_desc'', ''tipo_movimentacao_desc'', ''data'',
      ''faixa_etaria'', ''faixa_salarial'']"

text \<open>
  The imputation values in the words of the specification: the median as the middle of
  the sorted values, the average of the two middles for an even count; and the most
  frequent value with ties broken by the first value met in column order.
\<close>

definition spec_median :: "real list \<Rightarrow> real" where
  "spec_median xs =
     (let s = sort xs; n = length s
      in if even n then (s ! (n div 2 - 1) + s ! (n div 2)) / 2 else s ! (n div 2))"

definition spec_mode_first_encountered :: "'a list \<Rightarrow> 'a option" where
  "spec_mode_first_encountered xs =
     (let top = fold (\<lambda>x. max (count_list xs x)) xs 0
      in (case filter (\<lambda>x. count_list xs x = top) xs of [] \<Rightarrow> None | v # vs \<Rightarrow> Some v))"

text \<open>
  What the code does instead of the second: among the most frequent values, the least one
  in the sort order (of strings, or of category codes).
\<close>

definition least_mode :: "'a::linorder \<Rightarrow> 'a list \<Rightarrow> bool" where
  "least_mode v xs \<longleftrightarrow>
     v \<in> set xs \<and>
     (\<forall>x \<in> set xs. count_list xs x \<le> count_list xs v \<and>
        (count_list xs x = count_list xs v \<longrightarrow> v \<le> x))"

section \<open>Grouping: \<open>df.groupby(keys)\<close>\<close>

text \<open>
  pandas factorises every key column: the distinct present values, sorted, are the
  levels, and each row gets the position of its value among them as a code (a missing
  value gets no code). For a categorical key the levels are all the categories, observed
  or not (\<open>observed=False\<close>, the default of pandas 2.x), and the codes are those of the
  column.
\<close>

definition index_of :: "'a list \<Rightarrow> 'a \<Rightarrow> nat" where
  "index_of ls x = length (takeWhile (\<lambda>y. y \<noteq> x) ls)"

definition uniques :: "'a::linorder list \<Rightarrow> 'a list" where
  "uniques xs = sort (remdups xs)"

fun group_codes :: "coldata \<Rightarrow> nat option list" where
  "group_codes (Int64 xs) = map (\<lambda>x. Some (index_of (uniques xs) x)) xs"
| "group_codes (Float64 xs) = map (map_option (index_of (uniques (present xs)))) xs"
| "group_codes (Object xs) = map (map_option (index_of (uniques (present xs)))) xs"
| "group_codes (Category cs xs) =
     map (\<lambda>c. case c of None \<Rightarrow> None | Some k \<Rightarrow> if k < length cs then Some k else None) xs"
| "group_codes (Datetime64 xs) = map (map_option (index_of (uniques (present xs)))) xs"

fun group_levels :: "coldata \<Rightarrow> coldata" where
  "group_levels (Int64 xs) = Int64 (uniques xs)"
| "group_levels (Float64 xs) = Float64 (map Some (uniques (present xs)))"
| "group_levels (Object xs) = Object (map Some (uniques (present xs)))"
| "group_levels (Category cs xs) = Category cs (map Some [0..<length cs])"
| "group_levels (Datetime64 xs) = Datetime64 (map Some (uniques (present xs)))"

text \<open>Positional selection \<open>take(positions)\<close>.\<close>

fun take_rows :: "nat list \<Rightarrow> coldata \<Rightarrow> coldata" where
  "take_rows ks (Int64 xs) = Int64 (map ((!) xs) ks)"
| "take_rows ks (Float64 xs) = Float64 (map ((!) xs) ks)"
| "take_rows ks (Object xs) = Object (map ((!) xs) ks)"
| "take_rows ks (Category cs xs) = Category cs (map ((!) xs) ks)"
| "take_rows ks (Datetime64 xs) = Datetime64 (map ((!) xs) ks)"

fun is_category_col :: "coldata \<Rightarrow> bool" where
  "is_category_col (Category cs xs) = True"
| "is_category_col col = False"

text \<open>
  The key of a row is the tuple of its codes; a row with a missing key value belongs to
  no group (\<open>dropna=True\<close>). The groups are the observed keys, sorted (\<open>sort=True\<close>); when a
  key is categorical they are all combinations of the levels, in the same order.
\<close>

definition row_key :: "coldata list \<Rightarrow> nat \<Rightarrow> nat list option" where
  "row_key cols i = those (map (\<lambda>c. group_codes c ! i) cols)"

definition group_index :: "coldata list \<Rightarrow> nat \<Rightarrow> nat list list" where
  "group_index cols n =
     (if list_ex is_category_col cols
      then product_lists (map (\<lambda>c. [0..<col_len (group_levels c)]) cols)
      else sort (remdups (List.map_filter (row_key cols) [0..<n])))"

definition group_members :: "coldata list \<Rightarrow> nat \<Rightarrow> nat list \<Rightarrow> nat list" where
  "group_members cols n g = filter (\<lambda>i. row_key cols i = Some g) [0..<n]"

text \<open>The columns of a table for a list of names, in the order of the names.\<close>

definition lookup_cols :: "table \<Rightarrow> string list \<Rightarrow> table" where
  "lookup_cols df names = List.map_filter (\<lambda>c. map_option (Pair c) (map_of df c)) names"

text \<open>The key columns of the result: for every group, the level each code stands for.\<close>

definition group_columns :: "table \<Rightarrow> nat list list \<Rightarrow> table" where
  "group_columns keys gs =
     map (\<lambda>(j, (name, c)). (name, take_rows (map (\<lambda>g. g ! j) gs) (group_levels c)))
       (enumerate 0 keys)"

text \<open>
  \<open>reset_index()\<close> inserts the index levels in front of the columns, the last level
  first, and raises \<open>ValueError\<close> when a level has the name of a column already there.
\<close>

fun reset_index :: "table \<Rightarrow> table \<Rightarrow> error + table" where
  "reset_index [] t = Inr t"
| "reset_index ((n, c) # ks) t =
     (case reset_index ks t of
        Inl e \<Rightarrow> Inl e
      | Inr t' \<Rightarrow> if n \<in> set (map fst t') then Inl ValueError else Inr ((n, c) # t'))"

section \<open>Group statistics\<close>

definition group_values :: "'a option list \<Rightarrow> nat list \<Rightarrow> 'a list" where
  "group_values xs members = present (map ((!) xs) members)"

definition mean :: "real list \<Rightarrow> real option" where
  "mean xs = (if xs = [] then None else Some (sum_list xs / real (length xs)))"

definition minimum :: "'a::linorder list \<Rightarrow> 'a option" where
  "minimum xs = (if xs = [] then None else Some (Min (set xs)))"

definition maximum :: "'a::linorder list \<Rightarrow> 'a option" where
  "maximum xs = (if xs = [] then None else Some (Max (set xs)))"

text \<open>
  The result of \<open>min\<close> and \<open>max\<close> over an \<open>int64\<close> column stays \<open>int64\<close> unless a group is
  empty, in which case it is \<open>float64\<close> with NaN.
\<close>

definition int_column :: "int option list \<Rightarrow> coldata" where
  "int_column xs =
     (if list_all (\<lambda>x. x \<noteq> None) xs then Int64 (present xs)
      else Float64 (map (map_option real_of_int) xs))"


section \<open>\<open>DataProcessor.aggregate_by_period\<close>\<close>





text \<open>The keys of a dictionary built from a list: each name once, at its first place.\<close>

definition dict_keys :: "'a list \<Rightarrow> 'a list" where
  "dict_keys xs = rev (remdups (rev xs))"



text \<open>\<open>[col for col in names if col in df.columns]\<close>\<close>

definition valid_columns :: "table \<Rightarrow> string list \<Rightarrow> string list" where
  "valid_columns df names = filter (\<lambda>col. col \<in> set (map fst df)) names"






section \<open>\<open>DataProcessor.get_summary_statistics\<close>\<close>

text \<open>
  \<open>describe()\<close> of the numeric columns: count, mean, sample standard deviation, minimum,
  the quartiles by linear interpolation and maximum. pandas refuses to describe a frame
  without columns (\<open>ValueError: Cannot describe a DataFrame without columns\<close>).
\<close>

definition quantile :: "real \<Rightarrow> real list \<Rightarrow> real option" where
  "quantile q xs =
     (if xs = [] then None
      else
        (let s = sort xs; h = q * real (length s - 1); lo = nat \<lfloor>h\<rfloor>; hi = nat \<lceil>h\<rceil>
         in Some (s ! lo + (h - real lo) * (s ! hi - s ! lo))))"

definition std :: "real list \<Rightarrow> real option" where
  "std xs =
     (if length xs < 2 then None
      else
        (let mu = sum_list xs / real (length xs)
         in Some (sqrt (sum_list (map (\<lambda>x. (x - mu)\<^sup>2) xs) / real (length xs - 1)))))"

definition describe_index :: "string list" where
  "describe_index = [''count'', ''mean'', ''std'', ''min'', ''25%'', ''50%'', ''75%'', ''max'']"

definition describe_column :: "real list \<Rightarrow> real option list" where
  "describe_column xs =
     [Some (real (length xs)), mean xs, std xs, minimum xs, quantile (1 / 4) xs,
      quantile (1 / 2) xs, quantile (3 / 4) xs, maximum xs]"

fun numeric_values :: "coldata \<Rightarrow> real list" where
  "numeric_values (Int64 xs) = map real_of_int xs"
| "numeric_values (Float64 xs) = present xs"
| "numeric_values col = []"

definition describe :: "table \<Rightarrow> error + (string \<times> real option list) list" where
  "describe df =
     (if df = [] then Inl ValueError
      else Inr (map (\<lambda>(n, c). (n, describe_column (numeric_values c))) df))"

text \<open>
  \<open>value_counts()\<close> counts every present value (for a categorical, every category) and
  sorts the counts with \<open>sort_values(ascending=False)\<close>. The order that sort gives to
  equal counts is not fixed by pandas (it depends on the sorting routine of numpy), so
  the sort is a parameter of the model, applied to the counts in the order of first
  occurrence.
\<close>

type_synonym count_sorter = "(string \<times> nat) list \<Rightarrow> (string \<times> nat) list"

fun value_counts :: "count_sorter \<Rightarrow> coldata \<Rightarrow> (string \<times> nat) list" where
  "value_counts sort_counts (Object xs) =
     sort_counts (map (\<lambda>v. (v, count_list (present xs) v)) (dict_keys (present xs)))"
| "value_counts sort_counts (Category cs xs) =
     sort_counts (map (\<lambda>k. (cs ! k, count_list (present xs) k)) [0..<length cs])"
| "value_counts sort_counts col = []"

definition get_summary_statistics ::
  "count_sorter \<Rightarrow> table \<Rightarrow>
     error + (string \<times> real option list) list \<times> (string \<times> (string \<times> nat) list) list"
where
  "get_summary_statistics sort_counts df =
     (let numeric_cols = filter (\<lambda>(n, c). is_numeric_col c) df;
          categorical_cols = filter (\<lambda>(n, c). is_categorical_col c) df
      in (case describe numeric_cols of
            Inl e \<Rightarrow> Inl e
          | Inr numeric \<Rightarrow>
              Inr (numeric, map (\<lambda>(n, c). (n, value_counts sort_counts c)) categorical_cols)))"

section \<open>\<open>PlotGenerator.create_bar_chart\<close>\<close>

definition column_labels :: "(string \<times> string) list" where
  "column_labels =
     [(''ano'', ''Ano''),
      (''mes'', ''M'' @ [CHR 0xC3, CHR 0xAA] @ ''s''),
      (''uf'', ''UF''),
      (''idade'', ''Idade''),
      (''sexo'', ''Sexo''),
      (''sexo_desc'', ''Sexo''),
      (''grau_instrucao'', ''Grau de Instru'' @ [CHR 0xC3, CHR 0xA7, CHR 0xC3, CHR 0xA3] @ ''o''),
      (''grau_instrucao_desc'',
         ''Grau de Instru'' @ [CHR 0xC3, CHR 0xA7, CHR 0xC3, CHR 0xA3] @ ''o''),
      (''cbo_2002'', ''Ocupa'' @ [CHR 0xC3, CHR 0xA7, CHR 0xC3, CHR 0xA3] @ ''o (CBO)''),
      (''categoria'', ''Categoria do Trabalhador''),
      (''subclasse_cnae_2'', ''Setor Econ'' @ [CHR 0xC3, CHR 0xB4] @ ''mico (CNAE)''),
      (''salario'', ''Sal'' @ [CHR 0xC3, CHR 0xA1] @ ''rio''),
      (''tipo_movimentacao'',
         ''Tipo de Movimenta'' @ [CHR 0xC3, CHR 0xA7, CHR 0xC3, CHR 0xA3] @ ''o''),
      (''tipo_movimentacao_desc'',
         ''Tipo de Movimenta'' @ [CHR 0xC3, CHR 0xA7, CHR 0xC3, CHR 0xA3] @ ''o''),
      (''tipo_estabelecimento'', ''Tipo de Estabelecimento''),
      (''faixa_etaria'', ''Faixa Et'' @ [CHR 0xC3, CHR 0xA1] @ ''ria''),
      (''faixa_salarial'', ''Faixa Salarial'')]"

text \<open>\<open>self.column_labels.get(c, c)\<close>\<close>

definition label_for :: "string \<Rightarrow> string" where
  "label_for c = (case map_of column_labels c of None \<Rightarrow> c | Some l \<Rightarrow> l)"

text \<open>
  The figure is the request handed to the plotting library: an empty figure with a
  title, or the arguments of \<open>px.bar\<close> (the data, \<open>x\<close>, \<open>y\<close>, \<open>color\<close>, whether
  \<open>orientation='h'\<close> is passed, the title and the labels). Drawing is outside the model.
\<close>

datatype figure =
    Empty_Figure string
  | Bar_Figure (chart_data: table) (x_arg: string) (y_arg: string) (color_arg: "string option")
      (horizontal: bool) (title_arg: string) (labels_arg: "(string \<times> string) list")

text \<open>\<open>df.groupby(keys).size().reset_index(name='count')\<close>\<close>

definition groupby_size :: "table \<Rightarrow> string list \<Rightarrow> error + table" where
  "groupby_size df names =
     (let keys = lookup_cols df names;
          gs = group_index (map snd keys) (nrows df);
          ms = map (group_members (map snd keys) (nrows df)) gs
      in reset_index (group_columns keys gs) [(''count'', Int64 (map (\<lambda>m. int (length m)) ms))])"

text \<open>\<open>df.groupby(keys)[y].mean().reset_index()\<close>\<close>

fun mean_metric :: "coldata \<Rightarrow> nat list list \<Rightarrow> error + coldata" where
  "mean_metric (Float64 xs) ms = Inr (Float64 (map (\<lambda>m. mean (group_values xs m)) ms))"
| "mean_metric (Int64 xs) ms =
     Inr (Float64 (map (\<lambda>m. mean (map (\<lambda>i. real_of_int (xs ! i)) m)) ms))"
| "mean_metric (Object xs) ms =
     (if list_ex (\<lambda>m. group_values xs m \<noteq> []) ms then Inl TypeError
      else Inr (Object (map (\<lambda>m. None) ms)))"
| "mean_metric (Category cs xs) ms =
     (if list_ex (\<lambda>m. group_values xs m \<noteq> []) ms then Inl TypeError else Inl Unsupported)"
| "mean_metric (Datetime64 xs) ms = Inl Unsupported"

definition groupby_mean :: "table \<Rightarrow> string list \<Rightarrow> string \<Rightarrow> error + table" where
  "groupby_mean df names y =
     (let keys = lookup_cols df names;
          gs = group_index (map snd keys) (nrows df);
          ms = map (group_members (map snd keys) (nrows df)) gs
      in (case map_of df y of
            None \<Rightarrow> Inl KeyError
          | Some c \<Rightarrow>
              (case mean_metric c ms of
                 Inl e \<Rightarrow> Inl e
               | Inr col \<Rightarrow> reset_index (group_columns keys gs) [(y, col)])))"

text \<open>
  \<open>sort_values(by=...)\<close> is a parameter of the model: the order pandas gives to rows with
  equal keys is not fixed by its interface.
\<close>

type_synonym sorter = "table \<Rightarrow> string \<Rightarrow> table"

text \<open>
  \<open>name and name in df.columns\<close> for an optional string: \<open>None\<close> and the empty string are
  false in Python.
\<close>

definition usable :: "table \<Rightarrow> string option \<Rightarrow> string option" where
  "usable df name =
     (case name of
        None \<Rightarrow> None
      | Some v \<Rightarrow> if v \<noteq> [] \<and> v \<in> set (map fst df) then Some v else None)"

text \<open>
  The first half of the function: the data to draw and the name of the value column, or
  the early return with the figure that says the column is not available.
\<close>

datatype chart_input = Unavailable string | Chart_Data table string

definition bar_chart_data ::
  "table \<Rightarrow> string \<Rightarrow> string option \<Rightarrow> string option \<Rightarrow> error + chart_input"
where
  "bar_chart_data df x_column y_column group_by =
     (case y_column of
        None \<Rightarrow>
          (case usable df group_by of
             Some g \<Rightarrow>
               (case groupby_size df [x_column, g] of
                  Inl e \<Rightarrow> Inl e
                | Inr t \<Rightarrow> Inr (Chart_Data t ''count''))
           | None \<Rightarrow>
               (case groupby_size df [x_column] of
                  Inl e \<Rightarrow> Inl e
                | Inr t \<Rightarrow> Inr (Chart_Data t ''count'')))
      | Some y \<Rightarrow>
          (if y \<notin> set (map fst df)
           then Inr (Unavailable
                  (''Coluna '' @ y @ '' n'' @ [CHR 0xC3, CHR 0xA3] @ ''o dispon'' @
                   [CHR 0xC3, CHR 0xAD] @ ''vel para gr'' @ [CHR 0xC3, CHR 0xA1] @
                   ''fico de barras''))
           else
             (case usable df group_by of
                Some g \<Rightarrow>
                  (case groupby_mean df [x_column, g] y of
                     Inl e \<Rightarrow> Inl e
                   | Inr t \<Rightarrow> Inr (Chart_Data t y))
              | None \<Rightarrow> Inr (Chart_Data df y))))"

definition create_bar_chart ::
  "sorter \<Rightarrow> table \<Rightarrow> string \<Rightarrow> string option \<Rightarrow> string option \<Rightarrow> string \<Rightarrow> string option
     \<Rightarrow> error + figure"
where
  "create_bar_chart sort_values df x_column y_column group_by orientation sort_by =
     (if x_column \<notin> set (map fst df)
      then Inr (Empty_Figure
             (''Dados n'' @ [CHR 0xC3, CHR 0xA3] @ ''o dispon'' @ [CHR 0xC3, CHR 0xAD] @
              ''veis para gr'' @ [CHR 0xC3, CHR 0xA1] @ ''fico de barras''))
      else
        (case bar_chart_data df x_column y_column group_by of
           Inl e \<Rightarrow> Inl e
         | Inr (Unavailable msg) \<Rightarrow> Inr (Empty_Figure msg)
         | Inr (Chart_Data data y) \<Rightarrow>
             (let sorted_data =
                    (case usable data sort_by of
                       Some by \<Rightarrow> sort_values data by
                     | None \<Rightarrow> data);
                  title =
                    (if y = ''count'' then ''Contagem de '' @ label_for x_column
                     else label_for y @ '' por '' @ label_for x_column);
                  labels =
                    [(x_column, label_for x_column), (y, label_for y)] @
                    (case usable df group_by of Some g \<Rightarrow> [(g, label_for g)] | None \<Rightarrow> [])
              in if orientation = ''h''
                 then Inr (Bar_Figure sorted_data y x_column (usable df group_by) True title
                             labels)
                 else Inr (Bar_Figure sorted_data x_column y (usable df group_by) False title
                             labels))))"

section \<open>Filtering: the selected rows\<close>

lemma take_mask_Nil [simp]: "take_mask [] xs = []" "take_mask m [] = []"
  by (simp_all add: take_mask_def)

lemma take_mask_Cons [simp]:
  "take_mask (b # m) (x # xs) = (if b then x # take_mask m xs else take_mask m xs)"
  by (simp add: take_mask_def)

lemma take_mask_map: "take_mask m (map f xs) = map f (take_mask m xs)"
proof (induction m arbitrary: xs)
  case Nil
  then show ?case by simp
next
  case (Cons b m)
  then show ?case by (cases xs) simp_all
qed

lemma take_mask_pred: "take_mask (map P xs) xs = filter P xs"
  by (induction xs) simp_all

lemma take_mask_map_pred: "take_mask (map (\<lambda>x. P (f x)) xs) (map f xs) = filter P (map f xs)"
  by (induction xs) simp_all

lemma cells_boolean_index: "cells (boolean_index m col) = take_mask m (cells col)"
  by (cases col) (simp_all add: take_mask_map)

lemma col_len_cells: "length (cells col) = col_len col"
  by (cases col) simp_all

lemma ge_mask_sem:
  "ge_mask col lo = Inr a \<Longrightarrow> a = map (\<lambda>c. case cell_number c of None \<Rightarrow> False | Some x \<Rightarrow> lo \<le> x) (cells col)"
  by (cases col) (auto split: if_splits option.splits)

lemma le_mask_sem:
  "le_mask col hi = Inr b \<Longrightarrow> b = map (\<lambda>c. case cell_number c of None \<Rightarrow> False | Some x \<Rightarrow> x \<le> hi) (cells col)"
  by (cases col) (auto split: if_splits option.splits)

lemma map2_and_map: "map2 (\<and>) (map P xs) (map Q xs) = map (\<lambda>x. P x \<and> Q x) xs"
  by (induction xs) simp_all

lemma range_mask_sem:
  assumes "range_mask col lo hi = Inr m"
  shows "m = map (in_range lo hi) (cells col)"
proof -
  from assms obtain a b where a: "ge_mask col lo = Inr a" and b: "le_mask col hi = Inr b"
    and m: "m = map2 (\<and>) a b"
    by (auto simp: range_mask_def split: sum.splits)
  have "m = map (\<lambda>c. (case cell_number c of None \<Rightarrow> False | Some x \<Rightarrow> lo \<le> x) \<and>
                      (case cell_number c of None \<Rightarrow> False | Some x \<Rightarrow> x \<le> hi)) (cells col)"
    unfolding m ge_mask_sem [OF a] le_mask_sem [OF b] by (rule map2_and_map)
  also have "\<dots> = map (in_range lo hi) (cells col)"
    by (rule map_cong) (auto simp: in_range_def split: option.splits)
  finally show ?thesis .
qed

lemma list_ex_VStr: "list_ex (\<lambda>p. p = VStr s) vs \<longleftrightarrow> VStr s \<in> set vs"
  by (auto simp: list_ex_iff)

lemma cell_eq_fun:
  "cell_eq (IntC i) = num_eq (real_of_int i)" "cell_eq (FloatC r) = num_eq r"
  "cell_eq (StrC s) = (\<lambda>p. p = VStr s)" "cell_eq NA = (\<lambda>p. False)"
  "cell_eq (DateC t) = (\<lambda>p. False)"
  by (auto intro!: ext)

lemma list_ex_False: "list_ex (\<lambda>p. False) vs = False"
  by (induction vs) simp_all

lemma isin_sem: "isin col vs = Inr m \<Longrightarrow> m = map (\<lambda>c. list_ex (cell_eq c) vs) (cells col)"
  by (cases col)
     (auto simp: list_ex_VStr cell_eq_fun list_ex_False split: option.splits)

lemma eq_scalar_sem: "eq_scalar col p = Inr m \<Longrightarrow> m = map (\<lambda>c. cell_eq c p) (cells col)"
  by (cases col) (auto split: option.splits pyval.splits)

lemma eq_tuple_sem: "eq_tuple col vs = Inr m \<Longrightarrow> m = map (\<lambda>c. False) (cells col)"
  by (cases col) auto

lemma apply_filter_sem:
  assumes "apply_filter col v = Inr m"
  shows "m = map (satisfies v) (cells col)"
proof (cases "numeric_pair v")
  case (Some p)
  obtain lo hi where p: "p = (lo, hi)" by (cases p)
  with Some assms have "range_mask col lo hi = Inr m"
    by (simp add: apply_filter_def)
  from range_mask_sem [OF this] Some p show ?thesis
    by (simp add: satisfies_def)
next
  case None
  show ?thesis
  proof (cases v)
    case (Scalar q)
    with None assms have "eq_scalar col q = Inr m" by (simp add: apply_filter_def)
    from eq_scalar_sem [OF this] None Scalar show ?thesis by (simp add: satisfies_def)
  next
    case (ListV vs)
    with None assms have "isin col vs = Inr m" by (simp add: apply_filter_def)
    from isin_sem [OF this] None ListV show ?thesis by (simp add: satisfies_def)
  next
    case (TupleV vs)
    with None assms have "eq_tuple col vs = Inr m" by (simp add: apply_filter_def)
    from eq_tuple_sem [OF this] None TupleV show ?thesis by (simp add: satisfies_def)
  qed
qed

lemma apply_filter_typed:
  assumes "pred_typed col v"
  shows "\<exists>m. apply_filter col v = Inr m"
proof (cases "numeric_pair v")
  case (Some p)
  obtain lo hi where p: "p = (lo, hi)" by (cases p)
  from Some p assms have "is_numeric_col col" by (simp add: pred_typed_def)
  then have "\<exists>m. range_mask col lo hi = Inr m"
    by (cases col) (simp_all add: range_mask_def)
  with Some p show ?thesis by (simp add: apply_filter_def)
next
  case None
  with assms show ?thesis
    by (cases v; cases col) (auto simp: apply_filter_def pred_typed_def split: pyval.splits)
qed


lemma take_mask_nth:
  "length m = length xs \<Longrightarrow> take_mask m xs = map ((!) xs) (filter ((!) m) [0..<length m])"
proof (induction m xs rule: list_induct2)
  case Nil
  then show ?case by simp
next
  case (Cons b m x xs)
  have "[0..<length (b # m)] = 0 # map Suc [0..<length m]"
    by (simp add: upt_conv_Cons map_Suc_upt del: upt_Suc)
  then show ?case
    using Cons by (simp add: filter_map comp_def del: upt_Suc)
qed

lemma length_take_mask:
  "length m = length xs \<Longrightarrow> length (take_mask m xs) = length (filter (\<lambda>b. b) m)"
  by (induction m xs rule: list_induct2) simp_all

lemma col_len_boolean_index:
  "col_len (boolean_index m col) = length (take_mask m (cells col))"
  by (cases col) (simp_all add: take_mask_map)

lemma map_of_select_rows:
  "map_of (select_rows m df) column = map_option (boolean_index m) (map_of df column)"
  by (induction df) (auto simp: select_rows_def)

lemma names_select_rows: "map fst (select_rows m df) = map fst df"
  by (induction df) (auto simp: select_rows_def)

lemma map_of_row_at:
  "map_of (row_at df i) column = map_option (\<lambda>c. cells c ! i) (map_of df column)"
  by (induction df) (auto simp: row_at_def)

lemma rectangular_col:
  "rectangular df \<Longrightarrow> map_of df column = Some col \<Longrightarrow> col_len col = nrows df"
  by (auto simp: rectangular_def list_all_iff dest!: map_of_SomeD)

lemma nrows_select_rows:
  assumes "rectangular df" "length m = nrows df"
  shows "nrows (select_rows m df) = length (filter (\<lambda>b. b) m)"
proof (cases df)
  case Nil
  with assms show ?thesis by (simp add: select_rows_def nrows_def)
next
  case (Cons a df')
  obtain n c where a: "a = (n, c)" by (cases a)
  from assms Cons a have "length m = length (cells c)"
    by (simp add: nrows_def col_len_cells)
  from length_take_mask [OF this] Cons a show ?thesis
    by (simp add: select_rows_def nrows_def col_len_boolean_index)
qed

lemma rectangular_select_rows:
  assumes "rectangular df" "length m = nrows df"
  shows "rectangular (select_rows m df)"
proof -
  have "col_len (boolean_index m c) = nrows (select_rows m df)" if "(n, c) \<in> set df" for n c
  proof -
    from that assms have "length m = length (cells c)"
      by (auto simp: rectangular_def list_all_iff col_len_cells)
    from length_take_mask [OF this] show ?thesis
      by (simp add: col_len_boolean_index nrows_select_rows [OF assms])
  qed
  then show ?thesis
    by (auto simp: rectangular_def list_all_iff select_rows_def)
qed

lemma rows_select_rows:
  assumes "rectangular df" "length m = nrows df"
  shows "rows (select_rows m df) = take_mask m (rows df)"
proof -
  let ?ix = "filter ((!) m) [0..<length m]"
  have len: "length ?ix = length (filter (\<lambda>b. b) m)"
  proof -
    have "map ((!) m) ?ix = filter (\<lambda>b. b) (map ((!) m) [0..<length m])"
      by (simp add: filter_map comp_def)
    then have "length (map ((!) m) ?ix) = length (filter (\<lambda>b. b) m)"
      by (simp only: map_nth)
    then show ?thesis by simp
  qed
  have cell: "cells (boolean_index m c) = map ((!) (cells c)) ?ix" if "(n, c) \<in> set df" for n c
  proof -
    from that assms have "length m = length (cells c)"
      by (auto simp: rectangular_def list_all_iff col_len_cells)
    then show ?thesis
      by (simp add: cells_boolean_index take_mask_nth)
  qed
  have row: "row_at (select_rows m df) j = row_at df (?ix ! j)" if "j < length ?ix" for j
    using that cell by (auto simp: row_at_def select_rows_def)
  have "rows (select_rows m df) = map (row_at (select_rows m df)) [0..<length ?ix]"
    by (simp add: rows_def nrows_select_rows [OF assms] len)
  also have "\<dots> = map (\<lambda>j. row_at df (?ix ! j)) [0..<length ?ix]"
    by (rule map_cong) (simp_all add: row)
  also have "\<dots> = map (row_at df) (map ((!) ?ix) [0..<length ?ix])"
    by (simp add: comp_def)
  also have "\<dots> = map (row_at df) ?ix"
    by (simp only: map_nth)
  also have "\<dots> = map ((!) (rows df)) ?ix"
    by (rule map_cong) (use assms in \<open>auto simp: rows_def\<close>)
  also have "\<dots> = take_mask m (rows df)"
    using assms by (simp add: take_mask_nth rows_def)
  finally show ?thesis .
qed

lemma mask_rows:
  assumes "rectangular df" "map_of df column = Some col"
  shows "take_mask (map (satisfies v) (cells col)) (rows df) =
         filter (\<lambda>r. case map_of r column of None \<Rightarrow> True | Some c \<Rightarrow> satisfies v c) (rows df)"
proof -
  let ?P = "\<lambda>r. case map_of r column of None \<Rightarrow> True | Some c \<Rightarrow> satisfies v c"
  have n: "length (cells col) = nrows df"
    using rectangular_col [OF assms] by (simp add: col_len_cells)
  have "map (satisfies v) (cells col) = map (satisfies v) (map ((!) (cells col)) [0..<nrows df])"
    using n by (metis map_nth)
  also have "\<dots> = map (\<lambda>i. ?P (row_at df i)) [0..<nrows df]"
    using assms(2) by (simp add: map_of_row_at)
  finally have "map (satisfies v) (cells col) = map (\<lambda>i. ?P (row_at df i)) [0..<nrows df]" .
  then show ?thesis
    using take_mask_map_pred [of ?P "row_at df" "[0..<nrows df]"] by (simp add: rows_def)
qed

lemma absent_rows:
  assumes "map_of df column = None" "r \<in> set (rows df)"
  shows "map_of r column = None"
  using assms by (auto simp: rows_def map_of_row_at)

lemma dtype_boolean_index [simp]:
  "is_numeric_col (boolean_index m col) = is_numeric_col col"
  "is_datetime_col (boolean_index m col) = is_datetime_col col"
  "is_object_col (boolean_index m col) = is_object_col col"
  by (cases col; simp)+

lemma pred_typed_boolean_index: "pred_typed (boolean_index m col) v = pred_typed col v"
  by (auto simp: pred_typed_def split: option.splits fvalue.splits pyval.splits)

lemma filters_typed_select_rows:
  "filters_typed (select_rows m df) filters = filters_typed df filters"
  unfolding filters_typed_def map_of_select_rows
  by (rule list_all_cong [OF refl]) (auto simp: pred_typed_boolean_index split: option.splits)

lemma apply_filter_length:
  "apply_filter col v = Inr m \<Longrightarrow> length m = col_len col"
  by (drule apply_filter_sem) (simp add: col_len_cells)

lemma filter_data_rows:
  "rectangular df \<Longrightarrow> filter_data df filters = Inr df' \<Longrightarrow>
     rows df' = filter (row_ok filters) (rows df) \<and> map fst df' = map fst df \<and> rectangular df'"
proof (induction df filters rule: filter_data.induct)
  case (1 df)
  then show ?case by (simp add: row_ok_def)
next
  case (2 df column v filters)
  show ?case
  proof (cases "map_of df column")
    case None
    with 2 have ih: "rows df' = filter (row_ok filters) (rows df)" "map fst df' = map fst df"
      "rectangular df'"
      by simp_all
    have "filter (row_ok filters) (rows df) = filter (row_ok ((column, v) # filters)) (rows df)"
      by (rule filter_cong [OF refl]) (simp add: row_ok_def absent_rows [OF None])
    with ih show ?thesis by simp
  next
    case (Some col)
    with "2.prems" obtain m where m: "apply_filter col v = Inr m"
      and run: "filter_data (select_rows m df) filters = Inr df'"
      by (auto split: sum.splits)
    have len: "length m = nrows df"
      using apply_filter_length [OF m] rectangular_col [OF "2.prems"(1) Some] by simp
    have rect: "rectangular (select_rows m df)"
      by (rule rectangular_select_rows [OF "2.prems"(1) len])
    from "2.IH"(2) [OF Some m rect run]
    have ih: "rows df' = filter (row_ok filters) (rows (select_rows m df))"
      "map fst df' = map fst (select_rows m df)" "rectangular df'"
      by simp_all
    have "rows (select_rows m df) = take_mask m (rows df)"
      by (rule rows_select_rows [OF "2.prems"(1) len])
    also have "\<dots> = take_mask (map (satisfies v) (cells col)) (rows df)"
      using apply_filter_sem [OF m] by simp
    also have "\<dots> =
          filter (\<lambda>r. case map_of r column of None \<Rightarrow> True | Some c \<Rightarrow> satisfies v c) (rows df)"
      by (rule mask_rows [OF "2.prems"(1) Some])
    finally have "rows (select_rows m df) =
          filter (\<lambda>r. case map_of r column of None \<Rightarrow> True | Some c \<Rightarrow> satisfies v c) (rows df)" .
    with ih show ?thesis
      by (simp add: names_select_rows row_ok_def conj_commute)
  qed
qed

lemma filter_data_typed:
  "filters_typed df filters \<Longrightarrow> \<exists>df'. filter_data df filters = Inr df'"
proof (induction df filters rule: filter_data.induct)
  case (1 df)
  then show ?case by simp
next
  case (2 df column v filters)
  show ?case
  proof (cases "map_of df column")
    case None
    with 2 show ?thesis by (simp add: filters_typed_def)
  next
    case (Some col)
    with "2.prems" have "pred_typed col v" and rest: "filters_typed df filters"
      by (simp_all add: filters_typed_def)
    from apply_filter_typed [OF this(1)] obtain m where m: "apply_filter col v = Inr m" ..
    from rest have "filters_typed (select_rows m df) filters"
      by (simp add: filters_typed_select_rows)
    from "2.IH"(2) [OF Some m this] Some m show ?thesis by simp
  qed
qed

text \<open>
  C5, as the code has it. A range predicate on a column of strings does not select
  rows: the comparison of a string with a number raises \<open>TypeError\<close>.
\<close>

theorem filter_data_range_on_strings:
  "filter_data [(''uf'', Object [Some ''SP'', Some ''RJ''])]
     [(''uf'', TupleV [VInt 1000, VInt 2000])] = Inl TypeError"
  by (simp add: apply_filter_def range_mask_def has_present_def)

text \<open>
  C5, amended. For every table (all columns of one length) and every predicate mapping:
  whenever \<open>filter_data\<close> returns, it returns exactly the rows that satisfy the conjunction
  of all predicates, in their order and with the columns unchanged, where a two-element
  numeric list or tuple is the closed range \<open>[lo, hi]\<close>, any other list is membership and a
  scalar is equality, and a predicate on a column that the table does not have is
  ignored. It returns whenever every predicate fits the dtype of its column
  (\<open>filters_typed\<close>): a range on a numeric column, membership and equality with a string
  on a column other than datetime, a tuple on an object column.
\<close>

theorem filter_data_conjunction:
  assumes "rectangular df"
  shows "(filters_typed df filters \<longrightarrow> (\<exists>df'. filter_data df filters = Inr df')) \<and>
         (\<forall>df'. filter_data df filters = Inr df' \<longrightarrow>
            rows df' = filter (row_ok filters) (rows df) \<and> map fst df' = map fst df)"
  using filter_data_typed [of df filters] filter_data_rows [OF assms, of filters] by blast

theorem filter_data_conjunction_witness:
  "rectangular
     [(''salario'', Float64 [Some 900, Some 1500, Some 2000, None, Some 1200]),
      (''uf'', Object [Some ''SP'', Some ''MG'', Some ''RJ'', Some ''SP'', None])] \<and>
   filters_typed
     [(''salario'', Float64 [Some 900, Some 1500, Some 2000, None, Some 1200]),
      (''uf'', Object [Some ''SP'', Some ''MG'', Some ''RJ'', Some ''SP'', None])]
     [(''salario'', ListV [VInt 1000, VInt 2000]), (''municipio'', Scalar (VStr ''x'')),
      (''uf'', ListV [VStr ''SP'', VStr ''RJ''])] \<and>
   filter_data
     [(''salario'', Float64 [Some 900, Some 1500, Some 2000, None, Some 1200]),
      (''uf'', Object [Some ''SP'', Some ''MG'', Some ''RJ'', Some ''SP'', None])]
     [(''salario'', ListV [VInt 1000, VInt 2000]), (''municipio'', Scalar (VStr ''x'')),
      (''uf'', ListV [VStr ''SP'', VStr ''RJ''])] =
     Inr [(''salario'', Float64 [Some 2000]), (''uf'', Object [Some ''RJ''])] \<and>
   rows [(''salario'', Float64 [Some 2000]), (''uf'', Object [Some ''RJ''])] =
     filter
       (row_ok [(''salario'', ListV [VInt 1000, VInt 2000]), (''municipio'', Scalar (VStr ''x'')),
                (''uf'', ListV [VStr ''SP'', VStr ''RJ''])])
       (rows
         [(''salario'', Float64 [Some 900, Some 1500, Some 2000, None, Some 1200]),
          (''uf'', Object [Some ''SP'', Some ''MG'', Some ''RJ'', Some ''SP'', None])])"
proof -
  let ?t = "[(''salario'', Float64 [Some 900, Some 1500, Some 2000, None, Some 1200]),
      (''uf'', Object [Some ''SP'', Some ''MG'', Some ''RJ'', Some ''SP'', None])]"
  let ?f = "[(''salario'', ListV [VInt 1000, VInt 2000]), (''municipio'', Scalar (VStr ''x'')),
      (''uf'', ListV [VStr ''SP'', VStr ''RJ''])]"
  have r: "rectangular ?t"
    by (simp add: rectangular_def nrows_def)
  have ty: "filters_typed ?t ?f"
    by (simp add: filters_typed_def pred_typed_def)
  have run: "filter_data ?t ?f = Inr [(''salario'', Float64 [Some 2000]), (''uf'', Object [Some ''RJ''])]"
    by (simp add: apply_filter_def range_mask_def select_rows_def)
  from filter_data_conjunction [OF r, of ?f] r ty run show ?thesis
    by simp
qed

text \<open>
  C10. The range branch is taken exactly for a list or a tuple of two numbers. A tuple of
  two values that are not both numbers reaches the equality branch, where an object
  column compares each cell with the whole tuple, so no string cell matches; a list of
  the same two values is a membership test. On a column of state codes the list
  \<open>['SP', 'RJ']\<close> selects the rows of both states and the tuple \<open>('SP', 'RJ')\<close> selects none.
\<close>

theorem filter_tuple_versus_list:
  "(numeric_pair v = Some (lo, hi) \<longleftrightarrow>
      (\<exists>a b. (v = ListV [a, b] \<or> v = TupleV [a, b]) \<and>
         as_number a = Some lo \<and> as_number b = Some hi)) \<and>
   (numeric_pair v = Some (lo, hi) \<longrightarrow> apply_filter col v = range_mask col lo hi) \<and>
   (as_number a = None \<or> as_number b = None \<longrightarrow>
      apply_filter col (TupleV [a, b]) = eq_tuple col [a, b] \<and>
      apply_filter col (ListV [a, b]) = isin col [a, b] \<and>
      apply_filter (Object xs) (TupleV [a, b]) = Inr (map (\<lambda>x. False) xs)) \<and>
   filter_data [(''uf'', Object [Some ''SP'', Some ''MG'', Some ''RJ''])]
     [(''uf'', ListV [VStr ''SP'', VStr ''RJ''])] =
     Inr [(''uf'', Object [Some ''SP'', Some ''RJ''])] \<and>
   filter_data [(''uf'', Object [Some ''SP'', Some ''MG'', Some ''RJ''])]
     [(''uf'', TupleV [VStr ''SP'', VStr ''RJ''])] =
     Inr [(''uf'', Object [])]"
proof -
  have pair: "pair_of vs = Some (lo, hi) \<longleftrightarrow>
      (\<exists>a b. vs = [a, b] \<and> as_number a = Some lo \<and> as_number b = Some hi)" for vs
    by (cases vs rule: pair_of.cases) (auto split: option.splits)
  have A: "numeric_pair v = Some (lo, hi) \<longleftrightarrow>
      (\<exists>a b. (v = ListV [a, b] \<or> v = TupleV [a, b]) \<and>
         as_number a = Some lo \<and> as_number b = Some hi)"
    by (cases v) (auto simp: pair)
  have B: "numeric_pair v = Some (lo, hi) \<longrightarrow> apply_filter col v = range_mask col lo hi"
    by (simp add: apply_filter_def)
  have C: "as_number a = None \<or> as_number b = None \<longrightarrow>
      apply_filter col (TupleV [a, b]) = eq_tuple col [a, b] \<and>
      apply_filter col (ListV [a, b]) = isin col [a, b] \<and>
      apply_filter (Object xs) (TupleV [a, b]) = Inr (map (\<lambda>x. False) xs)"
    by (auto simp: apply_filter_def split: option.splits)
  have D: "filter_data [(''uf'', Object [Some ''SP'', Some ''MG'', Some ''RJ''])]
     [(''uf'', ListV [VStr ''SP'', VStr ''RJ''])] =
     Inr [(''uf'', Object [Some ''SP'', Some ''RJ''])]"
    by (simp add: apply_filter_def select_rows_def)
  have E: "filter_data [(''uf'', Object [Some ''SP'', Some ''MG'', Some ''RJ''])]
     [(''uf'', TupleV [VStr ''SP'', VStr ''RJ''])] =
     Inr [(''uf'', Object [])]"
    by (simp add: apply_filter_def select_rows_def)
  from A B C D E show ?thesis by blast
qed

theorem filter_tuple_versus_list_witness:
  "numeric_pair (TupleV [VInt 1000, VFloat 2000]) = Some (1000, 2000) \<and>
   apply_filter (Int64 [500, 1500]) (TupleV [VInt 1000, VFloat 2000]) =
     range_mask (Int64 [500, 1500]) 1000 2000 \<and>
   apply_filter (Object [Some ''SP'', Some ''RJ'']) (TupleV [VStr ''SP'', VStr ''RJ'']) =
     Inr [False, False] \<and>
   apply_filter (Object [Some ''SP'', Some ''RJ'']) (ListV [VStr ''SP'', VStr ''RJ'']) =
     isin (Object [Some ''SP'', Some ''RJ'']) [VStr ''SP'', VStr ''RJ'']"
proof -
  have n: "numeric_pair (TupleV [VInt 1000, VFloat 2000]) = Some (1000, 2000)"
    by simp
  have s: "as_number (VStr ''SP'') = None \<or> as_number (VStr ''RJ'') = None"
    by simp
  from filter_tuple_versus_list
         [of "TupleV [VInt 1000, VFloat 2000]" 1000 2000 "Int64 [500, 1500]"
             "VStr ''SP''" "VStr ''RJ''" "[Some ''SP'', Some ''RJ'']"]
       filter_tuple_versus_list
         [of "TupleV [VInt 1000, VFloat 2000]" 1000 2000 "Object [Some ''SP'', Some ''RJ'']"
             "VStr ''SP''" "VStr ''RJ''" "[Some ''SP'', Some ''RJ'']"]
       n s
  show ?thesis by simp
qed

section \<open>Imputation and the processing pipeline\<close>

lemma isnull_sum_pos: "isnull_sum xs > 0 \<longleftrightarrow> None \<in> set xs"
  by (induction xs) (auto simp: isnull_sum_def)

lemma isnull_sum_zero: "isnull_sum xs = 0 \<longleftrightarrow> None \<notin> set xs"
  using isnull_sum_pos [of xs] by auto


lemma present_Nil: "present xs = [] \<longleftrightarrow> (\<forall>x \<in> set xs. x = None)"
  by (induction xs rule: present.induct) auto

lemma isnull_sum_le: "isnull_sum xs \<le> length xs"
  by (simp add: isnull_sum_def)

lemma isnull_sum_less: "isnull_sum xs < length xs \<longleftrightarrow> present xs \<noteq> []"
proof (induction xs rule: present.induct)
  case 1
  then show ?case by (simp add: isnull_sum_def)
next
  case (2 xs)
  then show ?case by (simp add: isnull_sum_def)
next
  case (3 x xs)
  have "length (filter (\<lambda>x. x = None) xs) \<le> length xs" by simp
  then show ?case by (simp add: isnull_sum_def less_Suc_eq_le)
qed

lemma fillna_Some_no_null: "isnull_sum (fillna (Some v) xs) = 0"
  by (auto simp: isnull_sum_zero fillna_def split: option.splits)

lemma fillna_no_null: "None \<notin> set xs \<Longrightarrow> fillna v xs = xs"
  by (induction xs) (auto simp: fillna_def split: option.splits)

lemma median_spec: "xs \<noteq> [] \<Longrightarrow> median xs = Some (spec_median xs)"
  by (auto simp: median_def spec_median_def Let_def even_iff_mod_2_eq_zero)

lemma median_Nil: "median [] = None"
  by (simp add: median_def)

lemma fold_max: "fold (\<lambda>x. max (f x)) ys (a::nat) = Max (insert a (f ` set ys))"
proof (induction ys arbitrary: a)
  case Nil
  then show ?case by simp
next
  case (Cons y ys)
  have "Max (insert (max (f y) a) (f ` set ys)) = Max (insert a (insert (f y) (f ` set ys)))"
    by (cases "ys = []") (simp_all add: max.commute max.left_commute max.assoc)
  with Cons show ?case by simp
qed

lemma mode_set:
  "set (mode xs) = {x \<in> set xs. \<forall>y \<in> set xs. count_list xs y \<le> count_list xs x}"
proof -
  let ?top = "Max (insert 0 (count_list xs ` set xs))"
  have top_ge: "count_list xs y \<le> ?top" if "y \<in> set xs" for y
    using that by (intro Max_ge) auto
  have "count_list xs x = ?top \<longleftrightarrow> (\<forall>y \<in> set xs. count_list xs y \<le> count_list xs x)"
    if x: "x \<in> set xs" for x
  proof
    assume "count_list xs x = ?top"
    with top_ge show "\<forall>y \<in> set xs. count_list xs y \<le> count_list xs x" by simp
  next
    assume a: "\<forall>y \<in> set xs. count_list xs y \<le> count_list xs x"
    have "?top \<le> count_list xs x"
      using a by (intro Max.boundedI) auto
    with top_ge [OF x] show "count_list xs x = ?top" by simp
  qed
  then show ?thesis
    by (auto simp: mode_def fold_max)
qed

lemma mode_sorted: "sorted (mode xs)"
  by (simp add: mode_def Let_def)

lemma mode_empty: "mode xs = [] \<longleftrightarrow> xs = []"
proof
  assume e: "mode xs = []"
  show "xs = []"
  proof (rule ccontr)
    assume "xs \<noteq> []"
    then have "set xs \<noteq> {}" by simp
    then have "Max (count_list xs ` set xs) \<in> count_list xs ` set xs"
      by (intro Max_in) auto
    then obtain x where x: "x \<in> set xs" "count_list xs x = Max (count_list xs ` set xs)"
      by auto
    then have "x \<in> set xs" "\<forall>y \<in> set xs. count_list xs y \<le> count_list xs x"
      by auto
    then have "x \<in> set (mode xs)" by (simp add: mode_set)
    with e show False by simp
  qed
next
  assume "xs = []"
  then show "mode xs = []" by (simp add: mode_def)
qed

lemma mode_0_least: "mode_0 xs = Inr v \<Longrightarrow> least_mode v xs"
proof -
  assume "mode_0 xs = Inr v"
  then obtain vs where m: "mode xs = v # vs"
    by (auto simp: mode_0_def split: list.splits)
  then have "v \<in> set (mode xs)" by simp
  then have v: "v \<in> set xs" "\<forall>y \<in> set xs. count_list xs y \<le> count_list xs v"
    by (simp_all add: mode_set)
  have "v \<le> x" if "x \<in> set xs" "count_list xs x = count_list xs v" for x
  proof -
    from that v have "x \<in> set (mode xs)" by (simp add: mode_set)
    with m mode_sorted [of xs] show ?thesis by auto
  qed
  with v show ?thesis by (auto simp: least_mode_def)
qed

lemma mode_0_error: "mode_0 xs = Inl e \<longleftrightarrow> xs = [] \<and> e = KeyError"
  using mode_empty [of xs] by (auto simp: mode_0_def split: list.splits)


lemma fill_categorical_cols_nth:
  "fill_categorical_cols df = Inr df' \<Longrightarrow>
     length df' = length df \<and>
     (\<forall>j < length df. fst (df' ! j) = fst (df ! j) \<and>
        fill_categorical (snd (df ! j)) = Inr (snd (df' ! j)))"
proof (induction df arbitrary: df')
  case Nil
  then show ?case by simp
next
  case (Cons a df)
  obtain n c where a: "a = (n, c)" by (cases a)
  from Cons.prems a obtain c' rest where c': "fill_categorical c = Inr c'"
    and rest: "fill_categorical_cols df = Inr rest" and df': "df' = (n, c') # rest"
    by (auto split: sum.splits)
  from Cons.IH [OF rest] a c' df' show ?case
    by (auto simp: nth_Cons')
qed

lemma handle_missing_values_nth:
  assumes "handle_missing_values df = Inr df'" "j < length df"
  shows "length df' = length df" "fst (df' ! j) = fst (df ! j)"
    "fill_categorical (fill_numeric (snd (df ! j))) = Inr (snd (df' ! j))"
proof -
  let ?m = "map (\<lambda>(n, c). (n, fill_numeric c)) df"
  from assms(1) have "fill_categorical_cols ?m = Inr df'"
    by (simp add: handle_missing_values_def)
  from fill_categorical_cols_nth [OF this] assms(2)
  have "length df' = length df" "fst (df' ! j) = fst (?m ! j)"
    "fill_categorical (snd (?m ! j)) = Inr (snd (df' ! j))"
    by simp_all
  with assms(2) show "length df' = length df" "fst (df' ! j) = fst (df ! j)"
    "fill_categorical (fill_numeric (snd (df ! j))) = Inr (snd (df' ! j))"
    by (simp_all add: case_prod_beta)
qed

lemma fill_float:
  "fill_categorical (fill_numeric (Float64 xs)) =
     Inr (Float64 (fillna (if present xs = [] then None else Some (spec_median (present xs))) xs))"
  by (auto simp: isnull_sum_pos fillna_no_null median_spec median_Nil)

lemma fill_object:
  assumes "fill_categorical (fill_numeric (Object xs)) = Inr c'" "None \<in> set xs"
  shows "\<exists>v. least_mode v (present xs) \<and> c' = Object (fillna (Some v) xs)"
  using assms by (auto simp: isnull_sum_pos split: sum.splits dest: mode_0_least)

lemma fill_category:
  assumes "fill_categorical (fill_numeric (Category cs xs)) = Inr c'" "None \<in> set xs"
  shows "\<exists>v. least_mode v (present xs) \<and> c' = Category cs (fillna (Some v) xs)"
  using assms by (auto simp: isnull_sum_pos split: sum.splits dest: mode_0_least)

lemma fill_unchanged:
  assumes "fill_categorical (fill_numeric c) = Inr c'"
    "null_count c = 0 \<or> is_datetime_col c"
  shows "c' = c"
  using assms by (cases c) (auto simp: isnull_sum_pos isnull_sum_zero fillna_no_null)

lemma fill_null_free:
  assumes "fill_categorical (fill_numeric c) = Inr c'"
    "is_numeric_col c \<or> is_categorical_col c" "null_count c < col_len c"
  shows "null_count c' = 0"
proof (cases c)
  case (Int64 xs)
  with assms show ?thesis by auto
next
  case (Float64 xs)
  with assms(3) have "present xs \<noteq> []" by (simp add: isnull_sum_less)
  with assms(1) Float64 have "c' = Float64 (fillna (Some (spec_median (present xs))) xs)"
    by (simp add: fill_float del: fill_numeric.simps fill_categorical.simps)
  then show ?thesis
    by (simp add: fillna_Some_no_null)
next
  case (Object xs)
  with assms(1) show ?thesis
    by (auto simp: fillna_Some_no_null split: if_splits sum.splits)
next
  case (Category cs xs)
  with assms(1) show ?thesis
    by (auto simp: fillna_Some_no_null split: if_splits sum.splits)
next
  case (Datetime64 xs)
  with assms show ?thesis by auto
qed

lemma map_of_fill_categorical_cols:
  "fill_categorical_cols df = Inr df' \<Longrightarrow> map_of df c = Some col \<Longrightarrow>
     \<exists>col'. map_of df' c = Some col' \<and> fill_categorical col = Inr col'"
proof (induction df arbitrary: df')
  case Nil
  then show ?case by simp
next
  case (Cons a df)
  obtain n x where a: "a = (n, x)" by (cases a)
  from Cons.prems(1) a obtain x' rest where x': "fill_categorical x = Inr x'"
    and rest: "fill_categorical_cols df = Inr rest" and df': "df' = (n, x') # rest"
    by (auto split: sum.splits)
  show ?case
  proof (cases "n = c")
    case True
    with Cons.prems(2) a x' df' show ?thesis by simp
  next
    case False
    with Cons.prems(2) a have "map_of df c = Some col" by simp
    from Cons.IH [OF rest this] False df' show ?thesis by simp
  qed
qed

lemma map_of_handle_missing_values:
  assumes "handle_missing_values df = Inr clean" "map_of df c = Some col"
  shows "\<exists>col'. map_of clean c = Some col' \<and> fill_categorical (fill_numeric col) = Inr col'"
proof -
  let ?m = "map (\<lambda>(n, c). (n, fill_numeric c)) df"
  have "map_of ?m c = Some (fill_numeric col)"
    using assms(2) by (induction df) auto
  moreover from assms(1) have "fill_categorical_cols ?m = Inr clean"
    by (simp add: handle_missing_values_def)
  ultimately show ?thesis
    by (rule map_of_fill_categorical_cols [rotated])
qed

lemma map_of_assign:
  "map_of (assign name col df) c = (if c = name then Some col else map_of df c)"
  by (induction df) auto

lemma map_of_decode_categorical:
  assumes "c \<notin> set derived_columns"
  shows "map_of (decode_categorical df) c = map_of df c"
  using assms
  by (auto simp: decode_categorical_def Let_def derived_columns_def map_of_assign
      split: option.splits)

lemma map_of_create_derived_fields:
  assumes "create_derived_fields td df = Inr df'" "c \<notin> set derived_columns"
  shows "map_of df' c = map_of df c"
  using assms
  by (auto simp: create_derived_fields_def derived_columns_def map_of_assign
      split: option.splits sum.splits)

lemma string_order_RJ_SP: "(''RJ'' \<le> ''SP'') = True" "(''SP'' \<le> ''RJ'') = False"
  by code_simp+

subsection \<open>Running the pipeline on its own result\<close>

text \<open>
  A table with pairwise different column names is determined by its list of names and
  its lookup function; the three steps of the pipeline are described by what they do to
  both.
\<close>

lemma table_of_lookup:
  "distinct (map fst a) \<Longrightarrow> map (\<lambda>n. (n, the (map_of a n))) (map fst a) = a"
proof (induction a)
  case Nil
  then show ?case by simp
next
  case (Cons x a)
  obtain n c where x: "x = (n, c)" by (cases x)
  from Cons.prems x have n: "n \<notin> fst ` set a" and d: "distinct (map fst a)" by auto
  have "map (\<lambda>m. (m, the (map_of (x # a) m))) (map fst a) =
        map (\<lambda>m. (m, the (map_of a m))) (map fst a)"
    using n x by (intro map_cong) auto
  with Cons.IH [OF d] x show ?case by simp
qed

lemma table_eqI:
  assumes "distinct (map fst a)" "map fst b = map fst a"
    "\<And>n. n \<in> set (map fst a) \<Longrightarrow> map_of b n = map_of a n"
  shows "b = a"
proof -
  from assms(1,2) have "distinct (map fst b)" by simp
  from table_of_lookup [OF this] have "b = map (\<lambda>n. (n, the (map_of b n))) (map fst a)"
    using assms(2) by simp
  also have "\<dots> = map (\<lambda>n. (n, the (map_of a n))) (map fst a)"
    using assms(3) by (intro map_cong) auto
  also have "\<dots> = a" by (rule table_of_lookup [OF assms(1)])
  finally show ?thesis .
qed

lemma names_assign_old: "(n, x) \<in> set df \<Longrightarrow> map fst (assign n c df) = map fst df"
  by (induction df) auto

lemma names_assign_new: "n \<notin> fst ` set df \<Longrightarrow> map fst (assign n c df) = map fst df @ [n]"
  by (induction df) auto

lemma names_assign:
  "map fst (assign n c df) = (if n \<in> fst ` set df then map fst df else map fst df @ [n])"
  by (auto simp: names_assign_old names_assign_new)

lemma names_handle_missing_values:
  assumes "handle_missing_values df = Inr df'"
  shows "map fst df' = map fst df"
proof (rule nth_equalityI)
  show "length (map fst df') = length (map fst df)"
  proof (cases df)
    case Nil
    with assms show ?thesis by (simp add: handle_missing_values_def)
  next
    case (Cons x xs)
    then have "0 < length df" by simp
    from handle_missing_values_nth(1) [OF assms this] show ?thesis by simp
  qed
next
  fix i assume "i < length (map fst df')"
  moreover have "length df' = length df"
  proof (cases df)
    case Nil
    with assms show ?thesis by (simp add: handle_missing_values_def)
  next
    case (Cons x xs)
    then have "0 < length df" by simp
    from handle_missing_values_nth(1) [OF assms this] show ?thesis by simp
  qed
  ultimately have i: "i < length df" by simp
  from handle_missing_values_nth(2) [OF assms i] i \<open>length df' = length df\<close>
  show "map fst df' ! i = map fst df ! i" by simp
qed

lemma map_of_None_names: "map_of df n = None \<longleftrightarrow> n \<notin> set (map fst df)"
  by (simp add: map_of_eq_None_iff)

lemma fillna_None: "fillna None xs = xs"
  by (simp add: fillna_def map_idI split: option.splits)

lemma fill_fill:
  assumes "fill_categorical (fill_numeric c0) = Inr c"
  shows "fill_categorical (fill_numeric c) = Inr c"
proof (cases c0)
  case (Int64 xs)
  with assms show ?thesis by auto
next
  case (Float64 xs)
  with assms have c: "c = Float64 (fillna (if present xs = [] then None
      else Some (spec_median (present xs))) xs)"
    by (simp add: fill_float del: fill_numeric.simps fill_categorical.simps)
  show ?thesis
  proof (cases "present xs = []")
    case True
    with c have "c = Float64 xs" by (simp add: fillna_None)
    with True show ?thesis
      by (simp add: fill_float fillna_None del: fill_numeric.simps fill_categorical.simps)
  next
    case False
    with c have "null_count c = 0" by (simp add: fillna_Some_no_null)
    then show ?thesis using c by (auto simp: isnull_sum_pos isnull_sum_zero)
  qed
next
  case (Object xs)
  with assms show ?thesis
    by (auto simp: fillna_Some_no_null split: if_splits sum.splits)
next
  case (Category cs xs)
  with assms show ?thesis
    by (auto simp: fillna_Some_no_null split: if_splits sum.splits)
next
  case (Datetime64 xs)
  with assms show ?thesis by auto
qed

lemma handle_missing_values_lookup:
  assumes "handle_missing_values df = Inr clean"
  shows "map_of clean n =
     (case map_of df n of
        None \<Rightarrow> None
      | Some c \<Rightarrow> (case fill_categorical (fill_numeric c) of Inr c' \<Rightarrow> Some c' | Inl e \<Rightarrow> None))"
proof (cases "map_of df n")
  case None
  then have "n \<notin> set (map fst clean)"
    by (simp add: names_handle_missing_values [OF assms] map_of_None_names)
  then have "map_of clean n = None" by (simp add: map_of_None_names)
  with None show ?thesis by simp
next
  case (Some c)
  from map_of_handle_missing_values [OF assms Some] Some show ?thesis by auto
qed

lemma handle_missing_values_settled:
  assumes "handle_missing_values df = Inr clean" "map_of clean n = Some c"
  shows "fill_categorical (fill_numeric c) = Inr c"
  using assms(2) unfolding handle_missing_values_lookup [OF assms(1)]
  by (auto split: option.splits sum.splits intro: fill_fill)


lemma set_names_assign: "fst ` set (assign n c df) = insert n (fst ` set df)"
proof -
  have "fst ` set (assign n c df) = set (map fst (assign n c df))" by simp
  also have "\<dots> = insert n (fst ` set df)" by (auto simp: names_assign)
  finally show ?thesis .
qed

lemma distinct_assign: "distinct (map fst df) \<Longrightarrow> distinct (map fst (assign n c df))"
  by (simp add: names_assign)

lemma distinct_decode_categorical:
  "distinct (map fst df) \<Longrightarrow> distinct (map fst (decode_categorical df))"
  by (simp add: decode_categorical_def Let_def distinct_assign split: option.splits)

lemma decode_categorical_lookup:
  "map_of (decode_categorical t) n =
     (if n = ''tipo_movimentacao_desc'' then
        (case map_of t ''tipo_movimentacao'' of
           None \<Rightarrow> map_of t n
         | Some c \<Rightarrow> Some (map_int_keys tipo_movimentacao_mapping c))
      else if n = ''grau_instrucao_desc'' then
        (case map_of t ''grau_instrucao'' of
           None \<Rightarrow> map_of t n
         | Some c \<Rightarrow> Some (map_int_keys grau_instrucao_mapping c))
      else if n = ''sexo_desc'' then
        (case map_of t ''sexo'' of
           None \<Rightarrow> map_of t n
         | Some c \<Rightarrow> Some (map_str_keys sexo_mapping c))
      else map_of t n)"
  by (auto simp: decode_categorical_def Let_def map_of_assign split: option.splits)

lemma names_assign_present:
  "n \<in> fst ` set df \<Longrightarrow> map fst (assign n c df) = map fst df"
  by (simp add: names_assign)

lemma same_names: "map fst a = map fst b \<Longrightarrow> fst ` set a = fst ` set b"
  by (metis set_map)

lemma decode_categorical_names:
  assumes "map_of t ''sexo'' \<noteq> None \<longrightarrow> ''sexo_desc'' \<in> fst ` set t"
    "map_of t ''grau_instrucao'' \<noteq> None \<longrightarrow> ''grau_instrucao_desc'' \<in> fst ` set t"
    "map_of t ''tipo_movimentacao'' \<noteq> None \<longrightarrow> ''tipo_movimentacao_desc'' \<in> fst ` set t"
  shows "map fst (decode_categorical t) = map fst t"
proof -
  define t1 where "t1 = (case map_of t ''sexo'' of
                   None \<Rightarrow> t
                 | Some c \<Rightarrow> assign ''sexo_desc'' (map_str_keys sexo_mapping c) t)"
  define t2 where "t2 = (case map_of t1 ''grau_instrucao'' of
                   None \<Rightarrow> t1
                 | Some c \<Rightarrow>
                     assign ''grau_instrucao_desc'' (map_int_keys grau_instrucao_mapping c) t1)"
  define t3 where "t3 = (case map_of t2 ''tipo_movimentacao'' of
            None \<Rightarrow> t2
          | Some c \<Rightarrow>
              assign ''tipo_movimentacao_desc''
                (map_int_keys tipo_movimentacao_mapping c) t2)"
  have d: "decode_categorical t = t3"
    unfolding decode_categorical_def Let_def t3_def t2_def t1_def by (rule refl)
  have n1: "map fst t1 = map fst t"
    using assms(1) by (simp add: t1_def names_assign_present split: option.splits)
  have l1: "map_of t1 ''grau_instrucao'' = map_of t ''grau_instrucao''"
    "map_of t1 ''tipo_movimentacao'' = map_of t ''tipo_movimentacao''"
    by (simp_all add: t1_def map_of_assign split: option.splits)
  have n2: "map fst t2 = map fst t1"
    using assms(2) l1(1) same_names [OF n1]
    by (simp add: t2_def names_assign_present split: option.splits)
  have l2: "map_of t2 ''tipo_movimentacao'' = map_of t ''tipo_movimentacao''"
    using l1(2) by (simp add: t2_def map_of_assign split: option.splits)
  have "fst ` set t2 = fst ` set t"
    using same_names [OF n1] same_names [OF n2] by simp
  then have n3: "map fst t3 = map fst t2"
    using assms(3) l2 by (simp add: t3_def names_assign_present split: option.splits)
  from d n1 n2 n3 show ?thesis by simp
qed

lemma create_derived_fields_steps:
  assumes "create_derived_fields td t = Inr r"
  obtains t1 t2 where
    "(case map_of t ''ano'' of
        None \<Rightarrow> Inr t
      | Some a \<Rightarrow>
          (case map_of t ''mes'' of
             None \<Rightarrow> Inr t
           | Some m \<Rightarrow>
               (case td a m of
                  Inl e \<Rightarrow> Inl e
                | Inr ts \<Rightarrow> Inr (assign ''data'' (Datetime64 ts) t)))) = Inr t1"
    "(case map_of t1 ''idade'' of
        None \<Rightarrow> Inr t1
      | Some c \<Rightarrow>
          (case cut c idade_bins idade_labels of
             Inl e \<Rightarrow> Inl e
           | Inr b \<Rightarrow> Inr (assign ''faixa_etaria'' b t1))) = Inr t2"
    "(case map_of t2 ''salario'' of
        None \<Rightarrow> Inr t2
      | Some c \<Rightarrow>
          (case cut c salario_bins salario_labels of
             Inl e \<Rightarrow> Inl e
           | Inr b \<Rightarrow> Inr (assign ''faixa_salarial'' b t2))) = Inr r"
proof -
  let ?s1 = "(case (map_of t ''ano'', map_of t ''mes'') of
              (Some a, Some m) \<Rightarrow>
                (case td a m of
                   Inl e \<Rightarrow> Inl e
                 | Inr ts \<Rightarrow> Inr (assign ''data'' (Datetime64 ts) t))
            | _ \<Rightarrow> Inr t)"
  from assms obtain t1 where s1: "?s1 = Inr t1"
    by (cases ?s1) (simp_all add: create_derived_fields_def)
  let ?s2 = "(case map_of t1 ''idade'' of
        None \<Rightarrow> Inr t1
      | Some c \<Rightarrow>
          (case cut c idade_bins idade_labels of
             Inl e \<Rightarrow> Inl e
           | Inr b \<Rightarrow> Inr (assign ''faixa_etaria'' b t1)))"
  from assms s1 obtain t2 where s2: "?s2 = Inr t2"
    by (cases ?s2) (simp_all add: create_derived_fields_def)
  from assms s1 s2 have s3: "(case map_of t2 ''salario'' of
        None \<Rightarrow> Inr t2
      | Some c \<Rightarrow>
          (case cut c salario_bins salario_labels of
             Inl e \<Rightarrow> Inl e
           | Inr b \<Rightarrow> Inr (assign ''faixa_salarial'' b t2))) = Inr r"
    by (simp add: create_derived_fields_def)
  from s1 have "(case map_of t ''ano'' of
        None \<Rightarrow> Inr t
      | Some a \<Rightarrow>
          (case map_of t ''mes'' of
             None \<Rightarrow> Inr t
           | Some m \<Rightarrow>
               (case td a m of
                  Inl e \<Rightarrow> Inl e
                | Inr ts \<Rightarrow> Inr (assign ''data'' (Datetime64 ts) t)))) = Inr t1"
    by (simp split: option.splits)
  from this s2 s3 show ?thesis by (rule that)
qed


lemma cut_step_lookup:
  assumes "(case map_of t src of
        None \<Rightarrow> Inr t
      | Some c \<Rightarrow>
          (case f c of
             Inl e \<Rightarrow> Inl e
           | Inr b \<Rightarrow> Inr (assign d b t))) = Inr r"
  shows "map_of r n =
     (if n = d then
        (case map_of t src of
           None \<Rightarrow> map_of t n
         | Some c \<Rightarrow> (case f c of Inr b \<Rightarrow> Some b | Inl e \<Rightarrow> None))
      else map_of t n)"
proof (cases "map_of t src")
  case None
  with assms show ?thesis by simp
next
  case (Some c)
  with assms obtain b where "f c = Inr b" "r = assign d b t"
    by (cases "f c") simp_all
  with Some show ?thesis by (simp add: map_of_assign)
qed

lemma cut_step_names:
  assumes "(case map_of t src of
        None \<Rightarrow> Inr t
      | Some c \<Rightarrow>
          (case f c of
             Inl e \<Rightarrow> Inl e
           | Inr b \<Rightarrow> Inr (assign d b t))) = Inr r"
  shows "map fst r = (if map_of t src = None \<or> d \<in> fst ` set t then map fst t
                      else map fst t @ [d])"
proof (cases "map_of t src")
  case None
  with assms show ?thesis by simp
next
  case (Some c)
  with assms obtain b where "f c = Inr b" "r = assign d b t"
    by (cases "f c") simp_all
  with Some show ?thesis by (simp add: names_assign)
qed

lemma date_step_lookup:
  assumes "(case map_of t ''ano'' of
        None \<Rightarrow> Inr t
      | Some a \<Rightarrow>
          (case map_of t ''mes'' of
             None \<Rightarrow> Inr t
           | Some m \<Rightarrow>
               (case td a m of
                  Inl e \<Rightarrow> Inl e
                | Inr ts \<Rightarrow> Inr (assign ''data'' (Datetime64 ts) t)))) = Inr r"
  shows "map_of r n =
     (if n = ''data'' then
        (case map_of t ''ano'' of
           None \<Rightarrow> map_of t n
         | Some a \<Rightarrow>
             (case map_of t ''mes'' of
                None \<Rightarrow> map_of t n
              | Some m \<Rightarrow>
                  (case td a m of Inr ts \<Rightarrow> Some (Datetime64 ts) | Inl e \<Rightarrow> None)))
      else map_of t n)"
proof (cases "map_of t ''ano''")
  case None
  with assms show ?thesis by simp
next
  case a: (Some a)
  show ?thesis
  proof (cases "map_of t ''mes''")
    case None
    with assms a show ?thesis by simp
  next
    case (Some m)
    with assms a obtain ts where "td a m = Inr ts" "r = assign ''data'' (Datetime64 ts) t"
      by (cases "td a m") simp_all
    with a Some show ?thesis by (simp add: map_of_assign)
  qed
qed

lemma date_step_names:
  assumes "(case map_of t ''ano'' of
        None \<Rightarrow> Inr t
      | Some a \<Rightarrow>
          (case map_of t ''mes'' of
             None \<Rightarrow> Inr t
           | Some m \<Rightarrow>
               (case td a m of
                  Inl e \<Rightarrow> Inl e
                | Inr ts \<Rightarrow> Inr (assign ''data'' (Datetime64 ts) t)))) = Inr r"
  shows "map fst r =
     (if map_of t ''ano'' = None \<or> map_of t ''mes'' = None \<or> ''data'' \<in> fst ` set t
      then map fst t else map fst t @ [''data''])"
proof (cases "map_of t ''ano''")
  case None
  with assms show ?thesis by simp
next
  case a: (Some a)
  show ?thesis
  proof (cases "map_of t ''mes''")
    case None
    with assms a show ?thesis by simp
  next
    case (Some m)
    with assms a obtain ts where "td a m = Inr ts" "r = assign ''data'' (Datetime64 ts) t"
      by (cases "td a m") simp_all
    with a Some show ?thesis by (simp add: names_assign)
  qed
qed

lemma create_derived_fields_lookup:
  assumes "create_derived_fields td t = Inr r"
  shows "map_of r n =
     (if n = ''faixa_salarial'' then
        (case map_of t ''salario'' of
           None \<Rightarrow> map_of t n
         | Some c \<Rightarrow>
             (case cut c salario_bins salario_labels of Inr b \<Rightarrow> Some b | Inl e \<Rightarrow> None))
      else if n = ''faixa_etaria'' then
        (case map_of t ''idade'' of
           None \<Rightarrow> map_of t n
         | Some c \<Rightarrow>
             (case cut c idade_bins idade_labels of Inr b \<Rightarrow> Some b | Inl e \<Rightarrow> None))
      else if n = ''data'' then
        (case map_of t ''ano'' of
           None \<Rightarrow> map_of t n
         | Some a \<Rightarrow>
             (case map_of t ''mes'' of
                None \<Rightarrow> map_of t n
              | Some m \<Rightarrow>
                  (case td a m of Inr ts \<Rightarrow> Some (Datetime64 ts) | Inl e \<Rightarrow> None)))
      else map_of t n)"
proof -
  from assms obtain t1 t2 where
    s1: "(case map_of t ''ano'' of
        None \<Rightarrow> Inr t
      | Some a \<Rightarrow>
          (case map_of t ''mes'' of
             None \<Rightarrow> Inr t
           | Some m \<Rightarrow>
               (case td a m of
                  Inl e \<Rightarrow> Inl e
                | Inr ts \<Rightarrow> Inr (assign ''data'' (Datetime64 ts) t)))) = Inr t1"
    and s2: "(case map_of t1 ''idade'' of
        None \<Rightarrow> Inr t1
      | Some c \<Rightarrow>
          (case cut c idade_bins idade_labels of
             Inl e \<Rightarrow> Inl e
           | Inr b \<Rightarrow> Inr (assign ''faixa_etaria'' b t1))) = Inr t2"
    and s3: "(case map_of t2 ''salario'' of
        None \<Rightarrow> Inr t2
      | Some c \<Rightarrow>
          (case cut c salario_bins salario_labels of
             Inl e \<Rightarrow> Inl e
           | Inr b \<Rightarrow> Inr (assign ''faixa_salarial'' b t2))) = Inr r"
    by (rule create_derived_fields_steps)
  note l1 = date_step_lookup [OF s1]
  note l2 = cut_step_lookup [OF s2]
  note l3 = cut_step_lookup [OF s3]
  have i: "map_of t1 ''idade'' = map_of t ''idade''" by (simp add: l1)
  have s: "map_of t2 ''salario'' = map_of t ''salario''" by (simp add: l2 l1)
  show ?thesis
    unfolding l3 [of n] s l2 [of n] i l1 [of n] by simp
qed

lemma create_derived_fields_names:
  assumes "create_derived_fields td t = Inr r"
    "map_of t ''ano'' \<noteq> None \<and> map_of t ''mes'' \<noteq> None \<longrightarrow> ''data'' \<in> fst ` set t"
    "map_of t ''idade'' \<noteq> None \<longrightarrow> ''faixa_etaria'' \<in> fst ` set t"
    "map_of t ''salario'' \<noteq> None \<longrightarrow> ''faixa_salarial'' \<in> fst ` set t"
  shows "map fst r = map fst t"
proof -
  from assms(1) obtain t1 t2 where
    s1: "(case map_of t ''ano'' of
        None \<Rightarrow> Inr t
      | Some a \<Rightarrow>
          (case map_of t ''mes'' of
             None \<Rightarrow> Inr t
           | Some m \<Rightarrow>
               (case td a m of
                  Inl e \<Rightarrow> Inl e
                | Inr ts \<Rightarrow> Inr (assign ''data'' (Datetime64 ts) t)))) = Inr t1"
    and s2: "(case map_of t1 ''idade'' of
        None \<Rightarrow> Inr t1
      | Some c \<Rightarrow>
          (case cut c idade_bins idade_labels of
             Inl e \<Rightarrow> Inl e
           | Inr b \<Rightarrow> Inr (assign ''faixa_etaria'' b t1))) = Inr t2"
    and s3: "(case map_of t2 ''salario'' of
        None \<Rightarrow> Inr t2
      | Some c \<Rightarrow>
          (case cut c salario_bins salario_labels of
             Inl e \<Rightarrow> Inl e
           | Inr b \<Rightarrow> Inr (assign ''faixa_salarial'' b t2))) = Inr r"
    by (rule create_derived_fields_steps)
  note l1 = date_step_lookup [OF s1]
  note l2 = cut_step_lookup [OF s2]
  have i: "map_of t1 ''idade'' = map_of t ''idade''" by (simp add: l1)
  have s: "map_of t2 ''salario'' = map_of t ''salario''" by (simp add: l2 l1)
  have n1: "map fst t1 = map fst t"
    using assms(2) unfolding date_step_names [OF s1] by auto
  have n2: "map fst t2 = map fst t1"
    using assms(3) same_names [OF n1] unfolding cut_step_names [OF s2] i by auto
  have "fst ` set t2 = fst ` set t"
    using same_names [OF n1] same_names [OF n2] by simp
  then have n3: "map fst r = map fst t2"
    using assms(4) unfolding cut_step_names [OF s3] s by auto
  from n1 n2 n3 show ?thesis by simp
qed

lemma distinct_create_derived_fields:
  assumes "create_derived_fields td t = Inr r" "distinct (map fst t)"
  shows "distinct (map fst r)"
proof -
  from assms(1) obtain t1 t2 where
    s1: "(case map_of t ''ano'' of
        None \<Rightarrow> Inr t
      | Some a \<Rightarrow>
          (case map_of t ''mes'' of
             None \<Rightarrow> Inr t
           | Some m \<Rightarrow>
               (case td a m of
                  Inl e \<Rightarrow> Inl e
                | Inr ts \<Rightarrow> Inr (assign ''data'' (Datetime64 ts) t)))) = Inr t1"
    and s2: "(case map_of t1 ''idade'' of
        None \<Rightarrow> Inr t1
      | Some c \<Rightarrow>
          (case cut c idade_bins idade_labels of
             Inl e \<Rightarrow> Inl e
           | Inr b \<Rightarrow> Inr (assign ''faixa_etaria'' b t1))) = Inr t2"
    and s3: "(case map_of t2 ''salario'' of
        None \<Rightarrow> Inr t2
      | Some c \<Rightarrow>
          (case cut c salario_bins salario_labels of
             Inl e \<Rightarrow> Inl e
           | Inr b \<Rightarrow> Inr (assign ''faixa_salarial'' b t2))) = Inr r"
    by (rule create_derived_fields_steps)
  from assms(2) have "distinct (map fst t1)"
    unfolding date_step_names [OF s1] by simp
  then have "distinct (map fst t2)"
    unfolding cut_step_names [OF s2] by simp
  then show ?thesis
    unfolding cut_step_names [OF s3] by simp
qed


lemma create_derived_fields_present:
  assumes "create_derived_fields td t = Inr r"
  shows "map_of t ''ano'' \<noteq> None \<and> map_of t ''mes'' \<noteq> None \<longrightarrow> ''data'' \<in> fst ` set r"
    "map_of t ''idade'' \<noteq> None \<longrightarrow> ''faixa_etaria'' \<in> fst ` set r"
    "map_of t ''salario'' \<noteq> None \<longrightarrow> ''faixa_salarial'' \<in> fst ` set r"
proof -
  from assms obtain t1 t2 where
    s1: "(case map_of t ''ano'' of
        None \<Rightarrow> Inr t
      | Some a \<Rightarrow>
          (case map_of t ''mes'' of
             None \<Rightarrow> Inr t
           | Some m \<Rightarrow>
               (case td a m of
                  Inl e \<Rightarrow> Inl e
                | Inr ts \<Rightarrow> Inr (assign ''data'' (Datetime64 ts) t)))) = Inr t1"
    and s2: "(case map_of t1 ''idade'' of
        None \<Rightarrow> Inr t1
      | Some c \<Rightarrow>
          (case cut c idade_bins idade_labels of
             Inl e \<Rightarrow> Inl e
           | Inr b \<Rightarrow> Inr (assign ''faixa_etaria'' b t1))) = Inr t2"
    and s3: "(case map_of t2 ''salario'' of
        None \<Rightarrow> Inr t2
      | Some c \<Rightarrow>
          (case cut c salario_bins salario_labels of
             Inl e \<Rightarrow> Inl e
           | Inr b \<Rightarrow> Inr (assign ''faixa_salarial'' b t2))) = Inr r"
    by (rule create_derived_fields_steps)
  note l1 = date_step_lookup [OF s1]
  note l2 = cut_step_lookup [OF s2]
  have i: "map_of t1 ''idade'' = map_of t ''idade''" by (simp add: l1)
  have s: "map_of t2 ''salario'' = map_of t ''salario''" by (simp add: l2 l1)
  have e1: "set (map fst t1) =
      (if map_of t ''ano'' = None \<or> map_of t ''mes'' = None then fst ` set t
       else insert ''data'' (fst ` set t))"
    unfolding date_step_names [OF s1] by auto
  have e2: "set (map fst t2) =
      (if map_of t ''idade'' = None then fst ` set t1 else insert ''faixa_etaria'' (fst ` set t1))"
    unfolding cut_step_names [OF s2] i by auto
  have e3: "set (map fst r) =
      (if map_of t ''salario'' = None then fst ` set t2
       else insert ''faixa_salarial'' (fst ` set t2))"
    unfolding cut_step_names [OF s3] s by auto
  have f1: "fst ` set t1 = set (map fst t1)" "fst ` set t2 = set (map fst t2)"
    "fst ` set r = set (map fst r)"
    by simp_all
  show "map_of t ''ano'' \<noteq> None \<and> map_of t ''mes'' \<noteq> None \<longrightarrow> ''data'' \<in> fst ` set r"
    unfolding f1 e3 e2 e1 by simp
  show "map_of t ''idade'' \<noteq> None \<longrightarrow> ''faixa_etaria'' \<in> fst ` set r"
    unfolding f1 e3 e2 e1 by simp
  show "map_of t ''salario'' \<noteq> None \<longrightarrow> ''faixa_salarial'' \<in> fst ` set r"
    unfolding f1 e3 e2 e1 by simp
qed

text \<open>
  A second run of the pipeline changes nothing when it returns: on a table whose column
  names are pairwise different, if \<open>process_data\<close> returns a table and returns again on
  that table, the two results are equal. The imputation leaves the columns it has filled
  as they are, and decoding and derivation write the same columns from the same sources.
\<close>

lemma process_data_twice:
  assumes d: "distinct (map fst df)"
    and p1: "process_data td df = Inr u"
    and p2: "process_data td u = Inr u'"
  shows "u' = u"
proof -
  from p1 obtain clean where h1: "handle_missing_values df = Inr clean"
    and c1: "create_derived_fields td (decode_categorical clean) = Inr u"
    by (auto simp: process_data_def split: sum.splits)
  from p2 obtain clean2 where h2: "handle_missing_values u = Inr clean2"
    and c2: "create_derived_fields td (decode_categorical clean2) = Inr u'"
    by (auto simp: process_data_def split: sum.splits)
  note lu = create_derived_fields_lookup [OF c1]
  note lu' = create_derived_fields_lookup [OF c2]
  note ld = decode_categorical_lookup
  have keep: "map_of clean2 n = map_of clean n" if "map_of u n = map_of clean n" for n
  proof (cases "map_of clean n")
    case None
    with that show ?thesis by (simp add: handle_missing_values_lookup [OF h2])
  next
    case (Some c)
    from handle_missing_values_settled [OF h1 Some] that Some show ?thesis
      by (simp add: handle_missing_values_lookup [OF h2])
  qed
  have src: "map_of clean2 s = map_of clean s" if "s \<notin> set derived_columns" for s
    by (rule keep)
      (simp add: map_of_create_derived_fields [OF c1 that] map_of_decode_categorical [OF that])
  have s7: "map_of clean2 ''sexo'' = map_of clean ''sexo''"
    "map_of clean2 ''grau_instrucao'' = map_of clean ''grau_instrucao''"
    "map_of clean2 ''tipo_movimentacao'' = map_of clean ''tipo_movimentacao''"
    "map_of clean2 ''ano'' = map_of clean ''ano''"
    "map_of clean2 ''mes'' = map_of clean ''mes''"
    "map_of clean2 ''idade'' = map_of clean ''idade''"
    "map_of clean2 ''salario'' = map_of clean ''salario''"
    by (simp_all add: src derived_columns_def)
  have look: "map_of u' n = map_of u n" for n
  proof -
    consider "n = ''sexo_desc''" | "n = ''grau_instrucao_desc''"
      | "n = ''tipo_movimentacao_desc''" | "n = ''data''" | "n = ''faixa_etaria''"
      | "n = ''faixa_salarial''" | "n \<notin> set derived_columns"
      by (auto simp: derived_columns_def)
    then show ?thesis
    proof cases
      case 1
      show ?thesis
      proof (cases "map_of clean ''sexo''")
        case None
        with 1 have "map_of u n = map_of clean n" by (simp add: lu ld)
        from keep [OF this] 1 None show ?thesis by (simp add: lu lu' ld s7)
      next
        case (Some c)
        with 1 show ?thesis by (simp add: lu lu' ld s7)
      qed
    next
      case 2
      show ?thesis
      proof (cases "map_of clean ''grau_instrucao''")
        case None
        with 2 have "map_of u n = map_of clean n" by (simp add: lu ld)
        from keep [OF this] 2 None show ?thesis by (simp add: lu lu' ld s7)
      next
        case (Some c)
        with 2 show ?thesis by (simp add: lu lu' ld s7)
      qed
    next
      case 3
      show ?thesis
      proof (cases "map_of clean ''tipo_movimentacao''")
        case None
        with 3 have "map_of u n = map_of clean n" by (simp add: lu ld)
        from keep [OF this] 3 None show ?thesis by (simp add: lu lu' ld s7)
      next
        case (Some c)
        with 3 show ?thesis by (simp add: lu lu' ld s7)
      qed
    next
      case 4
      show ?thesis
      proof (cases "map_of clean ''ano'' = None \<or> map_of clean ''mes'' = None")
        case True
        with 4 have "map_of u n = map_of clean n"
          by (auto simp: lu ld split: option.splits)
        from keep [OF this] 4 True show ?thesis
          by (auto simp: lu lu' ld s7 split: option.splits)
      next
        case False
        then obtain a m where "map_of clean ''ano'' = Some a" "map_of clean ''mes'' = Some m"
          by auto
        with 4 show ?thesis by (simp add: lu lu' ld s7)
      qed
    next
      case 5
      show ?thesis
      proof (cases "map_of clean ''idade''")
        case None
        with 5 have "map_of u n = map_of clean n" by (simp add: lu ld)
        from keep [OF this] 5 None show ?thesis by (simp add: lu lu' ld s7)
      next
        case (Some c)
        with 5 show ?thesis by (simp add: lu lu' ld s7)
      qed
    next
      case 6
      show ?thesis
      proof (cases "map_of clean ''salario''")
        case None
        with 6 have "map_of u n = map_of clean n" by (simp add: lu ld)
        from keep [OF this] 6 None show ?thesis by (simp add: lu lu' ld s7)
      next
        case (Some c)
        with 6 show ?thesis by (simp add: lu lu' ld s7)
      qed
    next
      case 7
      have "map_of u' n = map_of clean2 n"
        by (simp add: map_of_create_derived_fields [OF c2 7] map_of_decode_categorical [OF 7])
      also have "\<dots> = map_of clean n" by (rule src [OF 7])
      also have "\<dots> = map_of u n"
        by (simp add: map_of_create_derived_fields [OF c1 7] map_of_decode_categorical [OF 7])
      finally show ?thesis .
    qed
  qed
  have nu: "fst ` set clean2 = fst ` set u"
    by (rule same_names [OF names_handle_missing_values [OF h2]])
  have has: "n \<in> fst ` set clean2" if "map_of u n \<noteq> None" for n
    using that unfolding nu by (simp add: map_of_eq_None_iff)
  have n1: "map fst (decode_categorical clean2) = map fst clean2"
  proof (rule decode_categorical_names)
    show "map_of clean2 ''sexo'' \<noteq> None \<longrightarrow> ''sexo_desc'' \<in> fst ` set clean2"
      by (auto simp: s7 lu ld intro!: has)
    show "map_of clean2 ''grau_instrucao'' \<noteq> None \<longrightarrow>
        ''grau_instrucao_desc'' \<in> fst ` set clean2"
      by (auto simp: s7 lu ld intro!: has)
    show "map_of clean2 ''tipo_movimentacao'' \<noteq> None \<longrightarrow>
        ''tipo_movimentacao_desc'' \<in> fst ` set clean2"
      by (auto simp: s7 lu ld intro!: has)
  qed
  note pr = create_derived_fields_present [OF c1]
  have n2: "map fst u' = map fst (decode_categorical clean2)"
  proof (rule create_derived_fields_names [OF c2])
    show "map_of (decode_categorical clean2) ''ano'' \<noteq> None \<and>
        map_of (decode_categorical clean2) ''mes'' \<noteq> None \<longrightarrow>
        ''data'' \<in> fst ` set (decode_categorical clean2)"
      unfolding same_names [OF n1] nu using pr(1) by (simp add: ld s7)
    show "map_of (decode_categorical clean2) ''idade'' \<noteq> None \<longrightarrow>
        ''faixa_etaria'' \<in> fst ` set (decode_categorical clean2)"
      unfolding same_names [OF n1] nu using pr(2) by (simp add: ld s7)
    show "map_of (decode_categorical clean2) ''salario'' \<noteq> None \<longrightarrow>
        ''faixa_salarial'' \<in> fst ` set (decode_categorical clean2)"
      unfolding same_names [OF n1] nu using pr(3) by (simp add: ld s7)
  qed
  have names: "map fst u' = map fst u"
    using n1 n2 names_handle_missing_values [OF h2] by simp
  have "distinct (map fst clean)"
    using d names_handle_missing_values [OF h1] by simp
  then have du: "distinct (map fst u)"
    by (intro distinct_create_derived_fields [OF c1] distinct_decode_categorical)
  from du names look show ?thesis by (rule table_eqI)
qed

subsection \<open>The imputation values and the pipeline\<close>

text \<open>
  C1, as the code has it. In a column where \<open>'SP'\<close> and \<open>'RJ'\<close> are equally frequent and
  \<open>'SP'\<close> comes first, the missing entry is filled with \<open>'RJ'\<close>, the least of the modes,
  and not with the first-encountered \<open>'SP'\<close>.
\<close>

theorem handle_missing_values_tie_break:
  "handle_missing_values [(''uf'', Object [Some ''SP'', Some ''RJ'', None])] =
     Inr [(''uf'', Object [Some ''SP'', Some ''RJ'', Some ''RJ''])] \<and>
   spec_mode_first_encountered [''SP'', ''RJ''] = Some ''SP''"
  by (simp add: handle_missing_values_def isnull_sum_def mode_0_def mode_def fillna_def
      spec_mode_first_encountered_def string_order_RJ_SP)

text \<open>
  C1, amended. Whenever the imputation step returns, the table keeps its columns and
  their names, and for every column:
  \<^item> a float column has each missing entry replaced by the median of its present values,
    the middle of the sorted values or the average of the two middles for an even count
    (and is left as it is when no value is present);
  \<^item> an object or categorical column with a missing entry has each missing entry
    replaced by its most frequent present value, ties broken by the least value in sort
    order (string order, or the order of the categories);
  \<^item> a column without missing entries, and a datetime column, is unchanged.
\<close>

theorem handle_missing_values_imputes:
  assumes "handle_missing_values df = Inr df'" and "j < length df"
  shows "length df' = length df \<and> fst (df' ! j) = fst (df ! j) \<and>
    (\<forall>xs. snd (df ! j) = Float64 xs \<longrightarrow>
       snd (df' ! j) =
         Float64 (fillna (if present xs = [] then None else Some (spec_median (present xs))) xs)) \<and>
    (\<forall>xs. snd (df ! j) = Object xs \<and> None \<in> set xs \<longrightarrow>
       (\<exists>v. least_mode v (present xs) \<and> snd (df' ! j) = Object (fillna (Some v) xs))) \<and>
    (\<forall>cs xs. snd (df ! j) = Category cs xs \<and> None \<in> set xs \<longrightarrow>
       (\<exists>v. least_mode v (present xs) \<and> snd (df' ! j) = Category cs (fillna (Some v) xs))) \<and>
    (null_count (snd (df ! j)) = 0 \<or> is_datetime_col (snd (df ! j)) \<longrightarrow>
       snd (df' ! j) = snd (df ! j))"
proof -
  note h = handle_missing_values_nth [OF assms]
  have A: "\<forall>xs. snd (df ! j) = Float64 xs \<longrightarrow>
       snd (df' ! j) =
         Float64 (fillna (if present xs = [] then None else Some (spec_median (present xs))) xs)"
    using h(3) by (auto simp: fill_float simp del: fill_numeric.simps fill_categorical.simps)
  have B: "\<forall>xs. snd (df ! j) = Object xs \<and> None \<in> set xs \<longrightarrow>
       (\<exists>v. least_mode v (present xs) \<and> snd (df' ! j) = Object (fillna (Some v) xs))"
    using h(3) fill_object by metis
  have C: "\<forall>cs xs. snd (df ! j) = Category cs xs \<and> None \<in> set xs \<longrightarrow>
       (\<exists>v. least_mode v (present xs) \<and> snd (df' ! j) = Category cs (fillna (Some v) xs))"
    using h(3) fill_category by metis
  have D: "null_count (snd (df ! j)) = 0 \<or> is_datetime_col (snd (df ! j)) \<longrightarrow>
       snd (df' ! j) = snd (df ! j)"
    using h(3) fill_unchanged by blast
  from h(1,2) A B C D show ?thesis by blast
qed

theorem handle_missing_values_imputes_witness:
  "handle_missing_values
     [(''salario'', Float64 [Some 1000, None, Some 3000, Some 2000, Some 500]),
      (''uf'', Object [Some ''SP'', None, Some ''RJ'', Some ''RJ'', Some ''SP''])] =
   Inr [(''salario'', Float64 [Some 1000, Some 1500, Some 3000, Some 2000, Some 500]),
        (''uf'', Object [Some ''SP'', Some ''RJ'', Some ''RJ'', Some ''RJ'', Some ''SP''])] \<and>
   Float64 [Some 1000, Some 1500, Some 3000, Some 2000, Some 500] =
     Float64 (fillna (Some (spec_median [1000, 3000, 2000, 500]))
       [Some 1000, None, Some 3000, Some 2000, Some 500]) \<and>
   (\<exists>v. least_mode v [''SP'', ''RJ'', ''RJ'', ''SP''] \<and>
      Object [Some ''SP'', Some ''RJ'', Some ''RJ'', Some ''RJ'', Some ''SP''] =
        Object (fillna (Some v) [Some ''SP'', None, Some ''RJ'', Some ''RJ'', Some ''SP'']))"
proof -
  let ?t = "[(''salario'', Float64 [Some 1000, None, Some 3000, Some 2000, Some 500]),
      (''uf'', Object [Some ''SP'', None, Some ''RJ'', Some ''RJ'', Some ''SP''])]"
  let ?u = "[(''salario'', Float64 [Some 1000, Some 1500, Some 3000, Some 2000, Some 500]),
        (''uf'', Object [Some ''SP'', Some ''RJ'', Some ''RJ'', Some ''RJ'', Some ''SP''])]"
  have run: "handle_missing_values ?t = Inr ?u"
    by (simp add: handle_missing_values_def isnull_sum_def mode_0_def mode_def fillna_def
        median_def string_order_RJ_SP)
  from handle_missing_values_imputes [OF run, of 0]
       handle_missing_values_imputes [OF run, of 1] run
  show ?thesis by simp
qed

text \<open>
  C2. A categorical column whose values are all missing makes the imputation step, and
  with it \<open>process_data\<close>, raise \<open>KeyError\<close>: the mode of nothing is an empty result and
  \<open>mode()[0]\<close> does not exist. The numeric sibling does what the claim says: the median of
  nothing is NaN, and the column is returned with its missing markers.
\<close>

theorem process_data_all_missing_categorical:
  "handle_missing_values [(''uf'', Object [None, None])] = Inl KeyError \<and>
   process_data month_index
     [(''salario'', Float64 [Some 1000, None, Some 3000]),
      (''uf'', Object [None, None, None])] = Inl KeyError \<and>
   handle_missing_values [(''salario'', Float64 [None, None])] =
     Inr [(''salario'', Float64 [None, None])]"
  by (simp add: process_data_def handle_missing_values_def isnull_sum_def median_def
      fillna_def mode_0_def mode_def)

text \<open>
  C6. A table with all the derived columns whose \<open>sexo\<close> code is not a key of the decoding
  table: \<open>process_data\<close> returns it with \<open>sexo_desc\<close> overwritten by a missing value, and
  \<open>process_data\<close> of that result raises \<open>KeyError\<close> in the imputation step, since
  \<open>sexo_desc\<close> is now a categorical column without any present value. The raise is the
  only way in which the second run differs: by \<open>process_data_twice\<close> it returns the same
  table whenever it returns.
\<close>

theorem process_data_not_idempotent:
  "process_data month_index
     [(''ano'', Int64 [2021]), (''mes'', Int64 [1]), (''idade'', Int64 [30]),
      (''sexo'', Object [Some ''3'']), (''grau_instrucao'', Int64 [9]),
      (''salario'', Float64 [Some 1500]), (''tipo_movimentacao'', Int64 [2]),
      (''sexo_desc'', Object [Some ''Feminino'']),
      (''grau_instrucao_desc'', Object [Some ''Superior Completo'']),
      (''tipo_movimentacao_desc'', Object [Some ''Desligamento'']),
      (''data'', Datetime64 [Some 24252]),
      (''faixa_etaria'', Category idade_labels [Some 2]),
      (''faixa_salarial'', Category salario_labels [Some 1])] =
   Inr
     [(''ano'', Int64 [2021]), (''mes'', Int64 [1]), (''idade'', Int64 [30]),
      (''sexo'', Object [Some ''3'']), (''grau_instrucao'', Int64 [9]),
      (''salario'', Float64 [Some 1500]), (''tipo_movimentacao'', Int64 [2]),
      (''sexo_desc'', Object [None]),
      (''grau_instrucao_desc'', Object [Some ''Superior Completo'']),
      (''tipo_movimentacao_desc'', Object [Some ''Desligamento'']),
      (''data'', Datetime64 [Some 24252]),
      (''faixa_etaria'', Category idade_labels [Some 2]),
      (''faixa_salarial'', Category salario_labels [Some 1])] \<and>
   process_data month_index
     [(''ano'', Int64 [2021]), (''mes'', Int64 [1]), (''idade'', Int64 [30]),
      (''sexo'', Object [Some ''3'']), (''grau_instrucao'', Int64 [9]),
      (''salario'', Float64 [Some 1500]), (''tipo_movimentacao'', Int64 [2]),
      (''sexo_desc'', Object [None]),
      (''grau_instrucao_desc'', Object [Some ''Superior Completo'']),
      (''tipo_movimentacao_desc'', Object [Some ''Desligamento'']),
      (''data'', Datetime64 [Some 24252]),
      (''faixa_etaria'', Category idade_labels [Some 2]),
      (''faixa_salarial'', Category salario_labels [Some 1])] = Inl KeyError"
proof -
  have A: "process_data month_index
     [(''ano'', Int64 [2021]), (''mes'', Int64 [1]), (''idade'', Int64 [30]),
      (''sexo'', Object [Some ''3'']), (''grau_instrucao'', Int64 [9]),
      (''salario'', Float64 [Some 1500]), (''tipo_movimentacao'', Int64 [2]),
      (''sexo_desc'', Object [Some ''Feminino'']),
      (''grau_instrucao_desc'', Object [Some ''Superior Completo'']),
      (''tipo_movimentacao_desc'', Object [Some ''Desligamento'']),
      (''data'', Datetime64 [Some 24252]),
      (''faixa_etaria'', Category idade_labels [Some 2]),
      (''faixa_salarial'', Category salario_labels [Some 1])] =
   Inr
     [(''ano'', Int64 [2021]), (''mes'', Int64 [1]), (''idade'', Int64 [30]),
      (''sexo'', Object [Some ''3'']), (''grau_instrucao'', Int64 [9]),
      (''salario'', Float64 [Some 1500]), (''tipo_movimentacao'', Int64 [2]),
      (''sexo_desc'', Object [None]),
      (''grau_instrucao_desc'', Object [Some ''Superior Completo'']),
      (''tipo_movimentacao_desc'', Object [Some ''Desligamento'']),
      (''data'', Datetime64 [Some 24252]),
      (''faixa_etaria'', Category idade_labels [Some 2]),
      (''faixa_salarial'', Category salario_labels [Some 1])]"
    by (simp add: process_data_def handle_missing_values_def isnull_sum_def
        decode_categorical_def sexo_mapping_def grau_instrucao_mapping_def
        tipo_movimentacao_mapping_def create_derived_fields_def cut_code_def
        searchsorted_right_def idade_bins_def salario_bins_def)
  have B: "process_data month_index
     [(''ano'', Int64 [2021]), (''mes'', Int64 [1]), (''idade'', Int64 [30]),
      (''sexo'', Object [Some ''3'']), (''grau_instrucao'', Int64 [9]),
      (''salario'', Float64 [Some 1500]), (''tipo_movimentacao'', Int64 [2]),
      (''sexo_desc'', Object [None]),
      (''grau_instrucao_desc'', Object [Some ''Superior Completo'']),
      (''tipo_movimentacao_desc'', Object [Some ''Desligamento'']),
      (''data'', Datetime64 [Some 24252]),
      (''faixa_etaria'', Category idade_labels [Some 2]),
      (''faixa_salarial'', Category salario_labels [Some 1])] = Inl KeyError"
    by (simp add: process_data_def handle_missing_values_def isnull_sum_def mode_0_def
        mode_def)
  from A B show ?thesis by (rule conjI)
qed

text \<open>
  C7, as the code has it. A decoded column that held a value before processing is
  overwritten by the decoding of the code column and is missing wherever the code is no
  key of the decoding table: nothing imputes it afterwards.
\<close>

theorem process_data_leaves_missing:
  "process_data month_index
     [(''sexo'', Object [Some ''3'']), (''sexo_desc'', Object [Some ''Feminino''])] =
   Inr [(''sexo'', Object [Some ''3'']), (''sexo_desc'', Object [None])]"
  by (simp add: process_data_def handle_missing_values_def isnull_sum_def
      decode_categorical_def sexo_mapping_def create_derived_fields_def)

text \<open>
  C7, amended. Whenever \<open>process_data\<close> returns, every numeric (int64, float64) or
  categorical (object, category) column of the input that has at least one present
  value, and that is not one of the columns written by decoding and derivation
  (\<open>sexo_desc\<close>, \<open>grau_instrucao_desc\<close>, \<open>tipo_movimentacao_desc\<close>, \<open>data\<close>, \<open>faixa_etaria\<close>,
  \<open>faixa_salarial\<close>), is in the output without any missing entry.
\<close>

theorem process_data_null_free:
  assumes "process_data to_datetime df = Inr df'" "map_of df c = Some col"
    "is_numeric_col col \<or> is_categorical_col col" "null_count col < col_len col"
    "c \<notin> set derived_columns"
  shows "\<exists>col'. map_of df' c = Some col' \<and> null_count col' = 0"
proof -
  from assms(1) obtain clean where clean: "handle_missing_values df = Inr clean"
    and der: "create_derived_fields to_datetime (decode_categorical clean) = Inr df'"
    by (auto simp: process_data_def split: sum.splits)
  from map_of_handle_missing_values [OF clean assms(2)] obtain col'
    where col': "map_of clean c = Some col'" "fill_categorical (fill_numeric col) = Inr col'"
    by blast
  have "map_of df' c = map_of clean c"
    using map_of_create_derived_fields [OF der assms(5)] map_of_decode_categorical [OF assms(5)]
    by simp
  with col' fill_null_free [OF col'(2) assms(3,4)] show ?thesis by simp
qed

theorem process_data_null_free_witness:
  "process_data month_index
     [(''ano'', Int64 [2021, 2021, 2021]), (''mes'', Int64 [1, 2, 3]),
      (''sexo'', Object [Some ''1'', None, Some ''1'']),
      (''salario'', Float64 [Some 1000, None, Some 3000])] =
   Inr [(''ano'', Int64 [2021, 2021, 2021]), (''mes'', Int64 [1, 2, 3]),
        (''sexo'', Object [Some ''1'', Some ''1'', Some ''1'']),
        (''salario'', Float64 [Some 1000, Some 2000, Some 3000]),
        (''sexo_desc'', Object [Some ''Masculino'', Some ''Masculino'', Some ''Masculino'']),
        (''data'', Datetime64 [Some 24252, Some 24253, Some 24254]),
        (''faixa_salarial'', Category salario_labels [Some 0, Some 1, Some 2])] \<and>
   null_count (Float64 [Some 1000, None, Some 3000]) < col_len (Float64 [Some 1000, None, Some 3000]) \<and>
   ''salario'' \<notin> set derived_columns \<and>
   null_count (Float64 [Some 1000, Some 2000, Some 3000]) = 0"
proof -
  let ?t = "[(''ano'', Int64 [2021, 2021, 2021]), (''mes'', Int64 [1, 2, 3]),
      (''sexo'', Object [Some ''1'', None, Some ''1'']),
      (''salario'', Float64 [Some 1000, None, Some 3000])]"
  have run: "process_data month_index ?t =
   Inr [(''ano'', Int64 [2021, 2021, 2021]), (''mes'', Int64 [1, 2, 3]),
        (''sexo'', Object [Some ''1'', Some ''1'', Some ''1'']),
        (''salario'', Float64 [Some 1000, Some 2000, Some 3000]),
        (''sexo_desc'', Object [Some ''Masculino'', Some ''Masculino'', Some ''Masculino'']),
        (''data'', Datetime64 [Some 24252, Some 24253, Some 24254]),
        (''faixa_salarial'', Category salario_labels [Some 0, Some 1, Some 2])]"
    by (simp add: process_data_def handle_missing_values_def isnull_sum_def median_def
        fillna_def mode_0_def mode_def decode_categorical_def sexo_mapping_def
        create_derived_fields_def cut_code_def searchsorted_right_def salario_bins_def)
  have m: "map_of ?t ''salario'' = Some (Float64 [Some 1000, None, Some 3000])"
    by simp
  have k: "is_numeric_col (Float64 [Some 1000, None, Some 3000]) \<or>
           is_categorical_col (Float64 [Some 1000, None, Some 3000])"
    by simp
  have n: "null_count (Float64 [Some 1000, None, Some 3000]) <
           col_len (Float64 [Some 1000, None, Some 3000])"
    by (simp add: isnull_sum_def)
  have d: "''salario'' \<notin> set derived_columns"
    by (simp add: derived_columns_def)
  from process_data_null_free [OF run m k n d] run n d show ?thesis
    by (simp add: isnull_sum_def)
qed

section \<open>The bracket columns\<close>

lemma lt7: "(i::nat) < 7 \<Longrightarrow> i = 0 \<or> i = 1 \<or> i = 2 \<or> i = 3 \<or> i = 4 \<or> i = 5 \<or> i = 6"
  by arith

lemma lt6: "(i::nat) < 6 \<Longrightarrow> i = 0 \<or> i = 1 \<or> i = 2 \<or> i = 3 \<or> i = 4 \<or> i = 5"
  by arith

lemma in_idade_iff:
  "in_idade_bracket i a \<longleftrightarrow>
     (i = 0 \<and> 0 \<le> a \<and> a < 18) \<or> (i = 1 \<and> 18 \<le> a \<and> a < 25) \<or>
     (i = 2 \<and> 25 \<le> a \<and> a < 35) \<or> (i = 3 \<and> 35 \<le> a \<and> a < 45) \<or>
     (i = 4 \<and> 45 \<le> a \<and> a < 55) \<or> (i = 5 \<and> 55 \<le> a \<and> a < 65) \<or>
     (i = 6 \<and> 65 \<le> a \<and> a < 100)"
proof (cases "i < 7")
  case False
  then show ?thesis by (simp add: in_idade_bracket_def idade_brackets_def)
next
  case True
  from lt7 [OF this] show ?thesis
    by (elim disjE) (simp_all add: in_idade_bracket_def idade_brackets_def)
qed

lemma in_salario_iff:
  "in_salario_bracket i s \<longleftrightarrow>
     (i = 0 \<and> 0 \<le> s \<and> s < 1100) \<or> (i = 1 \<and> 1100 \<le> s \<and> s < 2200) \<or>
     (i = 2 \<and> 2200 \<le> s \<and> s < 3300) \<or> (i = 3 \<and> 3300 \<le> s \<and> s < 5000) \<or>
     (i = 4 \<and> 5000 \<le> s \<and> s < 10000) \<or> (i = 5 \<and> 10000 \<le> s)"
proof (cases "i < 6")
  case False
  then show ?thesis by (simp add: in_salario_bracket_def salario_brackets_def)
next
  case True
  from lt6 [OF this] show ?thesis
    by (elim disjE) (simp_all add: in_salario_bracket_def salario_brackets_def)
qed

lemma idade_code:
  "0 \<le> a \<Longrightarrow> a < 100 \<Longrightarrow> cut_code idade_bins (Some a) = Some
     (if a < 18 then 0 else if a < 25 then 1 else if a < 35 then 2
      else if a < 45 then 3 else if a < 55 then 4 else if a < 65 then 5 else 6)"
  by (simp add: cut_code_def searchsorted_right_def idade_bins_def)

lemma salario_code:
  "0 \<le> s \<Longrightarrow> cut_code salario_bins (Some s) = Some
     (if s < 1100 then 0 else if s < 2200 then 1 else if s < 3300 then 2
      else if s < 5000 then 3 else if s < 10000 then 4 else 5)"
  by (simp add: cut_code_def searchsorted_right_def salario_bins_def)

lemma idade_unique:
  assumes "0 \<le> a" "a < 100"
  shows "\<exists>!i. in_idade_bracket i a"
proof (rule ex_ex1I)
  let ?k = "if a < 18 then 0 else if a < 25 then 1 else if a < 35 then 2
      else if a < 45 then 3 else if a < 55 then 4 else if a < 65 then 5 else (6::nat)"
  from assms have "in_idade_bracket ?k a"
    by (simp add: in_idade_iff)
  then show "\<exists>i. in_idade_bracket i a" ..
next
  fix i y
  assume "in_idade_bracket i a" "in_idade_bracket y a"
  then show "i = y"
    unfolding in_idade_iff by (elim disjE conjE) simp_all
qed

lemma salario_unique:
  assumes "0 \<le> s"
  shows "\<exists>!i. in_salario_bracket i s"
proof (rule ex_ex1I)
  let ?k = "if s < 1100 then 0 else if s < 2200 then 1 else if s < 3300 then 2
      else if s < 5000 then 3 else if s < 10000 then 4 else (5::nat)"
  from assms have "in_salario_bracket ?k s"
    by (simp add: in_salario_iff)
  then show "\<exists>i. in_salario_bracket i s" ..
next
  fix i y
  assume "in_salario_bracket i s" "in_salario_bracket y s"
  then show "i = y"
    unfolding in_salario_iff by (elim disjE conjE) simp_all
qed

lemma idade_cut_code:
  "in_idade_bracket k a \<Longrightarrow> cut_code idade_bins (Some a) = Some k \<and> k < length idade_labels"
  unfolding in_idade_iff by (elim disjE conjE) (simp_all add: idade_code idade_labels_def)

lemma salario_cut_code:
  "in_salario_bracket k s \<Longrightarrow>
     cut_code salario_bins (Some s) = Some k \<and> k < length salario_labels"
  unfolding in_salario_iff by (elim disjE conjE) (simp_all add: salario_code salario_labels_def)

text \<open>What \<open>pd.cut\<close> writes into the cell of a row, read through the labels.\<close>

lemma cut_len: "cut c bins labels = Inr b \<Longrightarrow> col_len b = col_len c"
  by (cases c) (auto split: if_splits)

lemma cut_numeric: "is_numeric_col c \<Longrightarrow> \<exists>b. cut c bins labels = Inr b"
  by (cases c) simp_all

lemma cut_cells:
  assumes "cut c bins labels = Inr b" "i < col_len c" "cell_number (cells c ! i) = Some x"
    "cut_code bins (Some x) = Some k" "k < length labels"
  shows "cells b ! i = StrC (labels ! k)"
proof (cases c)
  case (Int64 xs)
  with assms(2,3) have "real_of_int (xs ! i) = x" by simp
  with assms(1,2,4,5) Int64 show ?thesis by (auto simp: label_of_def)
next
  case (Float64 xs)
  with assms(2,3) have "xs ! i = Some x" by (auto split: option.splits)
  with assms(1,2,4,5) Float64 show ?thesis by (auto simp: label_of_def)
next
  case (Object xs)
  with assms(1) show ?thesis by (simp split: if_splits)
next
  case (Category cs xs)
  with assms(1) show ?thesis by simp
next
  case (Datetime64 xs)
  with assms(1) show ?thesis by simp
qed

lemma create_derived_fields_cut:
  assumes "create_derived_fields td df = Inr r"
  shows "map_of df ''idade'' = Some c \<Longrightarrow>
           \<exists>b. cut c idade_bins idade_labels = Inr b \<and> map_of r ''faixa_etaria'' = Some b"
    and "map_of df ''salario'' = Some c \<Longrightarrow>
           \<exists>b. cut c salario_bins salario_labels = Inr b \<and> map_of r ''faixa_salarial'' = Some b"
proof -
  from assms obtain t1 t2 where
    s1: "(case map_of df ''ano'' of
        None \<Rightarrow> Inr df
      | Some a \<Rightarrow>
          (case map_of df ''mes'' of
             None \<Rightarrow> Inr df
           | Some m \<Rightarrow>
               (case td a m of
                  Inl e \<Rightarrow> Inl e
                | Inr ts \<Rightarrow> Inr (assign ''data'' (Datetime64 ts) df)))) = Inr t1"
    and s2: "(case map_of t1 ''idade'' of
        None \<Rightarrow> Inr t1
      | Some c \<Rightarrow>
          (case cut c idade_bins idade_labels of
             Inl e \<Rightarrow> Inl e
           | Inr b \<Rightarrow> Inr (assign ''faixa_etaria'' b t1))) = Inr t2"
    and s3: "(case map_of t2 ''salario'' of
        None \<Rightarrow> Inr t2
      | Some c \<Rightarrow>
          (case cut c salario_bins salario_labels of
             Inl e \<Rightarrow> Inl e
           | Inr b \<Rightarrow> Inr (assign ''faixa_salarial'' b t2))) = Inr r"
    by (rule create_derived_fields_steps)
  note l1 = date_step_lookup [OF s1]
  note l2 = cut_step_lookup [OF s2]
  have i: "map_of t1 ''idade'' = map_of df ''idade''" by (simp add: l1)
  have s: "map_of t2 ''salario'' = map_of df ''salario''" by (simp add: l2 l1)
  note lr = create_derived_fields_lookup [OF assms]
  show "\<exists>b. cut c idade_bins idade_labels = Inr b \<and> map_of r ''faixa_etaria'' = Some b"
    if "map_of df ''idade'' = Some c"
  proof -
    from s2 i that obtain b where "cut c idade_bins idade_labels = Inr b"
      by (cases "cut c idade_bins idade_labels") simp_all
    with that show ?thesis by (simp add: lr)
  qed
  show "\<exists>b. cut c salario_bins salario_labels = Inr b \<and> map_of r ''faixa_salarial'' = Some b"
    if "map_of df ''salario'' = Some c"
  proof -
    from s3 s that obtain b where "cut c salario_bins salario_labels = Inr b"
      by (cases "cut c salario_bins salario_labels") simp_all
    with that show ?thesis by (simp add: lr)
  qed
qed

lemma create_derived_fields_returns:
  assumes "\<forall>c. map_of df ''idade'' = Some c \<longrightarrow> is_numeric_col c"
    "\<forall>c. map_of df ''salario'' = Some c \<longrightarrow> is_numeric_col c"
    "\<forall>a m. map_of df ''ano'' = Some a \<and> map_of df ''mes'' = Some m \<longrightarrow> (\<exists>ts. td a m = Inr ts)"
  shows "\<exists>r. create_derived_fields td df = Inr r"
proof -
  let ?s1 = "(case (map_of df ''ano'', map_of df ''mes'') of
              (Some a, Some m) \<Rightarrow>
                (case td a m of
                   Inl e \<Rightarrow> Inl e
                 | Inr ts \<Rightarrow> Inr (assign ''data'' (Datetime64 ts) df))
            | _ \<Rightarrow> Inr df)"
  have "\<exists>t1. ?s1 = Inr t1 \<and> map_of t1 ''idade'' = map_of df ''idade'' \<and>
          map_of t1 ''salario'' = map_of df ''salario''"
  proof (cases "map_of df ''ano''")
    case None
    then show ?thesis by simp
  next
    case a: (Some a)
    show ?thesis
    proof (cases "map_of df ''mes''")
      case None
      with a show ?thesis by simp
    next
      case (Some m)
      with a assms(3) obtain ts where "td a m = Inr ts" by blast
      with a Some show ?thesis by (simp add: map_of_assign)
    qed
  qed
  then obtain t1 where s1: "?s1 = Inr t1" and i: "map_of t1 ''idade'' = map_of df ''idade''"
    and s: "map_of t1 ''salario'' = map_of df ''salario''"
    by blast
  let ?s2 = "(case map_of t1 ''idade'' of
                   None \<Rightarrow> Inr t1
                 | Some c \<Rightarrow>
                     (case cut c idade_bins idade_labels of
                        Inl e \<Rightarrow> Inl e
                      | Inr b \<Rightarrow> Inr (assign ''faixa_etaria'' b t1)))"
  have "\<exists>t2. ?s2 = Inr t2 \<and> map_of t2 ''salario'' = map_of df ''salario''"
  proof (cases "map_of df ''idade''")
    case None
    with i s show ?thesis by simp
  next
    case (Some c)
    with assms(1) have "is_numeric_col c" by simp
    from cut_numeric [OF this] obtain b where "cut c idade_bins idade_labels = Inr b" ..
    with Some i s show ?thesis by (simp add: map_of_assign)
  qed
  then obtain t2 where s2: "?s2 = Inr t2" and s': "map_of t2 ''salario'' = map_of df ''salario''"
    by blast
  let ?s3 = "(case map_of t2 ''salario'' of
                  None \<Rightarrow> Inr t2
                | Some c \<Rightarrow>
                    (case cut c salario_bins salario_labels of
                       Inl e \<Rightarrow> Inl e
                     | Inr b \<Rightarrow> Inr (assign ''faixa_salarial'' b t2)))"
  have "\<exists>r. ?s3 = Inr r"
  proof (cases "map_of df ''salario''")
    case None
    with s' show ?thesis by simp
  next
    case (Some c)
    with assms(2) have "is_numeric_col c" by simp
    from cut_numeric [OF this] obtain b where "cut c salario_bins salario_labels = Inr b" ..
    with Some s' show ?thesis by simp
  qed
  then obtain r where s3: "?s3 = Inr r" ..
  from s1 s2 s3 have "create_derived_fields td df = Inr r"
    by (simp add: create_derived_fields_def)
  then show ?thesis ..
qed

text \<open>
  C3. \<open>_create_derived_fields\<close> writes the bracket columns with \<open>pd.cut\<close>, and for every
  date parser, table and row:
  \<^item> when the table has an \<open>idade\<close> column and the function returns, the result has the
    column \<open>faixa_etaria\<close>, the cut of \<open>idade\<close>, of the same length; every age in \<open>[0, 100)\<close>
    lies in exactly one of the seven age brackets, and the row's cell of \<open>faixa_etaria\<close>
    shows the label of that bracket;
  \<^item> likewise for \<open>salario\<close> and \<open>faixa_salarial\<close>, for every salary in \<open>[0, \<infinity>)\<close> and the six
    salary brackets, every salary from 10000 on lying in the top bracket;
  \<^item> the labels of a bracket family are pairwise different, so the label tells the
    bracket;
  \<^item> the function returns whenever the two columns, if there, are numeric and the date
    parser returns on the year and month columns;
  \<^item> the boundaries belong to the upper bracket: the ages 0, 17, 18, 24, 25, 35, 45, 55,
    65, 99 are labelled \<open><18\<close>, \<open><18\<close>, \<open>18-24\<close>, \<open>18-24\<close>, \<open>25-34\<close>, \<open>35-44\<close>, \<open>45-54\<close>,
    \<open>55-64\<close>, \<open>65+\<close>, \<open>65+\<close>, and the salaries 0, 1099, 1100, 2200, 3300, 5000, 10000, 25000
    are put into the brackets number 0, 0, 1, 2, 3, 4, 5, 5.
\<close>

theorem bracket_partition:
  "(create_derived_fields td df = Inr r \<and> map_of df ''idade'' = Some c \<longrightarrow>
      (\<exists>b. map_of r ''faixa_etaria'' = Some b \<and> cut c idade_bins idade_labels = Inr b \<and>
           col_len b = col_len c \<and>
           (\<forall>i < col_len c. \<forall>a. cell_number (cells c ! i) = Some a \<and> 0 \<le> a \<and> a < 100 \<longrightarrow>
              (\<exists>!k. in_idade_bracket k a) \<and>
              (\<forall>k. in_idade_bracket k a \<longrightarrow> cells b ! i = StrC (idade_labels ! k))))) \<and>
   (create_derived_fields td df = Inr r \<and> map_of df ''salario'' = Some c' \<longrightarrow>
      (\<exists>b. map_of r ''faixa_salarial'' = Some b \<and> cut c' salario_bins salario_labels = Inr b \<and>
           col_len b = col_len c' \<and>
           (\<forall>i < col_len c'. \<forall>s. cell_number (cells c' ! i) = Some s \<and> 0 \<le> s \<longrightarrow>
              (\<exists>!k. in_salario_bracket k s) \<and> (10000 \<le> s \<longrightarrow> in_salario_bracket 5 s) \<and>
              (\<forall>k. in_salario_bracket k s \<longrightarrow> cells b ! i = StrC (salario_labels ! k))))) \<and>
   distinct idade_labels \<and> length idade_labels = 7 \<and>
   distinct salario_labels \<and> length salario_labels = 6 \<and>
   ((\<forall>x. map_of df ''idade'' = Some x \<longrightarrow> is_numeric_col x) \<and>
    (\<forall>x. map_of df ''salario'' = Some x \<longrightarrow> is_numeric_col x) \<and>
    (\<forall>y m. map_of df ''ano'' = Some y \<and> map_of df ''mes'' = Some m \<longrightarrow> (\<exists>ts. td y m = Inr ts)) \<longrightarrow>
      (\<exists>t. create_derived_fields td df = Inr t)) \<and>
   create_derived_fields td [(''idade'', Int64 [0, 17, 18, 24, 25, 35, 45, 55, 65, 99])] =
     Inr [(''idade'', Int64 [0, 17, 18, 24, 25, 35, 45, 55, 65, 99]),
          (''faixa_etaria'',
           Category [''<18'', ''18-24'', ''25-34'', ''35-44'', ''45-54'', ''55-64'', ''65+'']
             [Some 0, Some 0, Some 1, Some 1, Some 2, Some 3, Some 4, Some 5, Some 6, Some 6])] \<and>
   create_derived_fields td
     [(''salario'',
       Float64 [Some 0, Some 1099, Some 1100, Some 2200, Some 3300, Some 5000, Some 10000,
                Some 25000])] =
     Inr [(''salario'',
           Float64 [Some 0, Some 1099, Some 1100, Some 2200, Some 3300, Some 5000, Some 10000,
                    Some 25000]),
          (''faixa_salarial'',
           Category salario_labels
             [Some 0, Some 0, Some 1, Some 2, Some 3, Some 4, Some 5, Some 5])]"
proof -
  have A: "create_derived_fields td df = Inr r \<and> map_of df ''idade'' = Some c \<longrightarrow>
      (\<exists>b. map_of r ''faixa_etaria'' = Some b \<and> cut c idade_bins idade_labels = Inr b \<and>
           col_len b = col_len c \<and>
           (\<forall>i < col_len c. \<forall>a. cell_number (cells c ! i) = Some a \<and> 0 \<le> a \<and> a < 100 \<longrightarrow>
              (\<exists>!k. in_idade_bracket k a) \<and>
              (\<forall>k. in_idade_bracket k a \<longrightarrow> cells b ! i = StrC (idade_labels ! k))))"
  proof
    assume h: "create_derived_fields td df = Inr r \<and> map_of df ''idade'' = Some c"
    then obtain b where b: "cut c idade_bins idade_labels = Inr b"
      "map_of r ''faixa_etaria'' = Some b"
      using create_derived_fields_cut(1) by blast
    have "(\<exists>!k. in_idade_bracket k a) \<and>
          (\<forall>k. in_idade_bracket k a \<longrightarrow> cells b ! i = StrC (idade_labels ! k))"
      if "i < col_len c" "cell_number (cells c ! i) = Some a" "0 \<le> a" "a < 100" for i a
      using that idade_unique [of a] cut_cells [OF b(1) that(1,2)] idade_cut_code [of _ a]
      by blast
    with b cut_len [OF b(1)] show "\<exists>b. map_of r ''faixa_etaria'' = Some b \<and>
           cut c idade_bins idade_labels = Inr b \<and> col_len b = col_len c \<and>
           (\<forall>i < col_len c. \<forall>a. cell_number (cells c ! i) = Some a \<and> 0 \<le> a \<and> a < 100 \<longrightarrow>
              (\<exists>!k. in_idade_bracket k a) \<and>
              (\<forall>k. in_idade_bracket k a \<longrightarrow> cells b ! i = StrC (idade_labels ! k)))"
      by blast
  qed
  have B: "create_derived_fields td df = Inr r \<and> map_of df ''salario'' = Some c' \<longrightarrow>
      (\<exists>b. map_of r ''faixa_salarial'' = Some b \<and> cut c' salario_bins salario_labels = Inr b \<and>
           col_len b = col_len c' \<and>
           (\<forall>i < col_len c'. \<forall>s. cell_number (cells c' ! i) = Some s \<and> 0 \<le> s \<longrightarrow>
              (\<exists>!k. in_salario_bracket k s) \<and> (10000 \<le> s \<longrightarrow> in_salario_bracket 5 s) \<and>
              (\<forall>k. in_salario_bracket k s \<longrightarrow> cells b ! i = StrC (salario_labels ! k))))"
  proof
    assume h: "create_derived_fields td df = Inr r \<and> map_of df ''salario'' = Some c'"
    then obtain b where b: "cut c' salario_bins salario_labels = Inr b"
      "map_of r ''faixa_salarial'' = Some b"
      using create_derived_fields_cut(2) by blast
    have "(\<exists>!k. in_salario_bracket k s) \<and> (10000 \<le> s \<longrightarrow> in_salario_bracket 5 s) \<and>
          (\<forall>k. in_salario_bracket k s \<longrightarrow> cells b ! i = StrC (salario_labels ! k))"
      if "i < col_len c'" "cell_number (cells c' ! i) = Some s" "0 \<le> s" for i s
    proof -
      have "10000 \<le> s \<longrightarrow> in_salario_bracket 5 s"
        by (simp add: in_salario_iff)
      with that salario_unique [of s] cut_cells [OF b(1) that(1,2)] salario_cut_code [of _ s]
      show ?thesis by blast
    qed
    with b cut_len [OF b(1)] show "\<exists>b. map_of r ''faixa_salarial'' = Some b \<and>
           cut c' salario_bins salario_labels = Inr b \<and> col_len b = col_len c' \<and>
           (\<forall>i < col_len c'. \<forall>s. cell_number (cells c' ! i) = Some s \<and> 0 \<le> s \<longrightarrow>
              (\<exists>!k. in_salario_bracket k s) \<and> (10000 \<le> s \<longrightarrow> in_salario_bracket 5 s) \<and>
              (\<forall>k. in_salario_bracket k s \<longrightarrow> cells b ! i = StrC (salario_labels ! k)))"
      by blast
  qed
  have C: "distinct idade_labels \<and> length idade_labels = 7"
    by (simp add: idade_labels_def)
  have D: "distinct salario_labels \<and> length salario_labels = 6"
    by (simp add: salario_labels_def)
  have E: "(\<forall>x. map_of df ''idade'' = Some x \<longrightarrow> is_numeric_col x) \<and>
    (\<forall>x. map_of df ''salario'' = Some x \<longrightarrow> is_numeric_col x) \<and>
    (\<forall>y m. map_of df ''ano'' = Some y \<and> map_of df ''mes'' = Some m \<longrightarrow> (\<exists>ts. td y m = Inr ts)) \<longrightarrow>
      (\<exists>t. create_derived_fields td df = Inr t)"
    using create_derived_fields_returns [of df td] by blast
  have F: "create_derived_fields td [(''idade'', Int64 [0, 17, 18, 24, 25, 35, 45, 55, 65, 99])] =
     Inr [(''idade'', Int64 [0, 17, 18, 24, 25, 35, 45, 55, 65, 99]),
          (''faixa_etaria'',
           Category [''<18'', ''18-24'', ''25-34'', ''35-44'', ''45-54'', ''55-64'', ''65+'']
             [Some 0, Some 0, Some 1, Some 1, Some 2, Some 3, Some 4, Some 5, Some 6, Some 6])]"
    by (simp add: create_derived_fields_def cut_code_def searchsorted_right_def idade_bins_def
        idade_labels_def)
  have G: "create_derived_fields td
     [(''salario'',
       Float64 [Some 0, Some 1099, Some 1100, Some 2200, Some 3300, Some 5000, Some 10000,
                Some 25000])] =
     Inr [(''salario'',
           Float64 [Some 0, Some 1099, Some 1100, Some 2200, Some 3300, Some 5000, Some 10000,
                    Some 25000]),
          (''faixa_salarial'',
           Category salario_labels
             [Some 0, Some 0, Some 1, Some 2, Some 3, Some 4, Some 5, Some 5])]"
    by (simp add: create_derived_fields_def cut_code_def searchsorted_right_def salario_bins_def)
  from A B C D E F G show ?thesis by (intro conjI) blast+
qed

theorem bracket_partition_witness:
  "create_derived_fields month_index
     [(''idade'', Int64 [30]), (''salario'', Float64 [Some 12000])] =
   Inr [(''idade'', Int64 [30]), (''salario'', Float64 [Some 12000]),
        (''faixa_etaria'', Category idade_labels [Some 2]),
        (''faixa_salarial'', Category salario_labels [Some 5])] \<and>
   (\<exists>b. map_of [(''idade'', Int64 [30]), (''salario'', Float64 [Some 12000]),
                (''faixa_etaria'', Category idade_labels [Some 2]),
                (''faixa_salarial'', Category salario_labels [Some 5])] ''faixa_etaria'' = Some b \<and>
        (\<exists>!k. in_idade_bracket k 30) \<and> cells b ! 0 = StrC ''25-34'') \<and>
   (\<exists>b. map_of [(''idade'', Int64 [30]), (''salario'', Float64 [Some 12000]),
                (''faixa_etaria'', Category idade_labels [Some 2]),
                (''faixa_salarial'', Category salario_labels [Some 5])] ''faixa_salarial'' = Some b \<and>
        (\<exists>!k. in_salario_bracket k 12000) \<and> in_salario_bracket 5 12000 \<and>
        cells b ! 0 = StrC ''10+ SM'')"
proof -
  let ?df = "[(''idade'', Int64 [30]), (''salario'', Float64 [Some 12000])]"
  let ?r = "[(''idade'', Int64 [30]), (''salario'', Float64 [Some 12000]),
        (''faixa_etaria'', Category idade_labels [Some 2]),
        (''faixa_salarial'', Category salario_labels [Some 5])]"
  have run: "create_derived_fields month_index ?df = Inr ?r"
    by (simp add: create_derived_fields_def cut_code_def searchsorted_right_def idade_bins_def
        salario_bins_def)
  have l: "map_of ?df ''idade'' = Some (Int64 [30])"
    "map_of ?df ''salario'' = Some (Float64 [Some 12000])"
    by simp_all
  have h: "in_idade_bracket 2 30" "idade_labels ! 2 = ''25-34''"
    "salario_labels ! 5 = ''10+ SM''"
    by (simp_all add: in_idade_bracket_def idade_brackets_def idade_labels_def
        salario_labels_def)
  note t = bracket_partition [of month_index ?df ?r "Int64 [30]" "Float64 [Some 12000]"]
  from t run l(1) obtain b where b: "map_of ?r ''faixa_etaria'' = Some b"
    "\<forall>i < col_len (Int64 [30]). \<forall>a. cell_number (cells (Int64 [30]) ! i) = Some a \<and> 0 \<le> a \<and>
        a < 100 \<longrightarrow>
      (\<exists>!k. in_idade_bracket k a) \<and>
      (\<forall>k. in_idade_bracket k a \<longrightarrow> cells b ! i = StrC (idade_labels ! k))"
    by blast
  from b(2) have "(\<exists>!k. in_idade_bracket k 30) \<and>
      (\<forall>k. in_idade_bracket k 30 \<longrightarrow> cells b ! 0 = StrC (idade_labels ! k))"
    by simp
  with h have 1: "(\<exists>!k. in_idade_bracket k 30) \<and> cells b ! 0 = StrC ''25-34''"
    by auto
  from t run l(2) obtain b' where b': "map_of ?r ''faixa_salarial'' = Some b'"
    "\<forall>i < col_len (Float64 [Some 12000]). \<forall>s.
       cell_number (cells (Float64 [Some 12000]) ! i) = Some s \<and> 0 \<le> s \<longrightarrow>
       (\<exists>!k. in_salario_bracket k s) \<and> (10000 \<le> s \<longrightarrow> in_salario_bracket 5 s) \<and>
       (\<forall>k. in_salario_bracket k s \<longrightarrow> cells b' ! i = StrC (salario_labels ! k))"
    by blast
  from b'(2) have "(\<exists>!k. in_salario_bracket k 12000) \<and> in_salario_bracket 5 12000 \<and>
       (\<forall>k. in_salario_bracket k 12000 \<longrightarrow> cells b' ! 0 = StrC (salario_labels ! k))"
    by simp
  with h have 2: "(\<exists>!k. in_salario_bracket k 12000) \<and> in_salario_bracket 5 12000 \<and>
       cells b' ! 0 = StrC ''10+ SM''"
    by auto
  from run b(1) 1 b'(1) 2 show ?thesis by blast
qed

section \<open>Grouping and aggregation\<close>



lemma uniques_props [simp]:
  "set (uniques xs) = set xs" "distinct (uniques xs)" "sorted (uniques xs)"
  by (simp_all add: uniques_def)









lemma col_len_take_rows [simp]: "col_len (take_rows ks c) = length ks"
  by (cases c) simp_all







lemma group_columns_names [simp]: "map fst (group_columns keys gs) = map fst keys"
  by (simp add: group_columns_def list_eq_iff_nth_eq nth_enumerate_eq case_prod_beta)

lemma length_group_columns [simp]: "length (group_columns keys gs) = length keys"
  by (simp add: group_columns_def)



lemma valid_columns_idem [simp]: "valid_columns df (valid_columns df names) = valid_columns df names"
  by (simp add: valid_columns_def)

lemma valid_columns_mem: "c \<in> set (valid_columns df names) \<Longrightarrow> c \<in> set (map fst df)"
  by (simp add: valid_columns_def)






lemma col_len_int_column [simp]: "col_len (int_column xs) = length xs"
proof -
  have "list_all (\<lambda>x. x \<noteq> None) xs \<Longrightarrow> length (present xs) = length xs"
    by (induction xs rule: present.induct) auto
  then show ?thesis by (simp add: int_column_def)
qed











subsection \<open>The statistics of a group\<close>
















text \<open>
  C8. The summary of a table without numeric columns, the empty table among them, is
  not an empty summary: \<open>describe()\<close> of a frame without columns raises \<open>ValueError\<close>.
\<close>

theorem get_summary_statistics_empty:
  "get_summary_statistics sort_counts [] = Inl ValueError \<and>
   get_summary_statistics sort_counts [(''uf'', Object [])] = Inl ValueError"
  by (simp add: get_summary_statistics_def describe_def)

text \<open>
  C9. Without a metric the chart data are the row counts per bucket, and with a metric
  and a grouping column they are the means per bucket and group. With a metric and no
  grouping column the chart data are the rows of the table as they are, two rows for
  \<open>'SP'\<close> here, and not the mean per bucket that \<open>groupby_mean\<close> would give.
\<close>

theorem create_bar_chart_metric_without_group:
  "bar_chart_data
     [(''uf'', Object [Some ''SP'', Some ''SP'', Some ''RJ'']),
      (''sexo'', Object [Some ''1'', Some ''1'', Some ''2'']),
      (''salario'', Float64 [Some 1000, Some 3000, Some 500])]
     ''uf'' None None =
   Inr (Chart_Data [(''uf'', Object [Some ''RJ'', Some ''SP'']), (''count'', Int64 [1, 2])]
          ''count'') \<and>
   bar_chart_data
     [(''uf'', Object [Some ''SP'', Some ''SP'', Some ''RJ'']),
      (''sexo'', Object [Some ''1'', Some ''1'', Some ''2'']),
      (''salario'', Float64 [Some 1000, Some 3000, Some 500])]
     ''uf'' (Some ''salario'') (Some ''sexo'') =
   Inr (Chart_Data
          [(''uf'', Object [Some ''RJ'', Some ''SP'']),
           (''sexo'', Object [Some ''2'', Some ''1'']),
           (''salario'', Float64 [Some 500, Some 2000])]
          ''salario'') \<and>
   bar_chart_data
     [(''uf'', Object [Some ''SP'', Some ''SP'', Some ''RJ'']),
      (''sexo'', Object [Some ''1'', Some ''1'', Some ''2'']),
      (''salario'', Float64 [Some 1000, Some 3000, Some 500])]
     ''uf'' (Some ''salario'') None =
   Inr (Chart_Data
          [(''uf'', Object [Some ''SP'', Some ''SP'', Some ''RJ'']),
           (''sexo'', Object [Some ''1'', Some ''1'', Some ''2'']),
           (''salario'', Float64 [Some 1000, Some 3000, Some 500])]
          ''salario'') \<and>
   groupby_mean
     [(''uf'', Object [Some ''SP'', Some ''SP'', Some ''RJ'']),
      (''sexo'', Object [Some ''1'', Some ''1'', Some ''2'']),
      (''salario'', Float64 [Some 1000, Some 3000, Some 500])]
     [''uf''] ''salario'' =
   Inr [(''uf'', Object [Some ''RJ'', Some ''SP'']), (''salario'', Float64 [Some 500, Some 2000])] \<and>
   create_bar_chart (\<lambda>t by. t)
     [(''uf'', Object [Some ''SP'', Some ''SP'', Some ''RJ'']),
      (''sexo'', Object [Some ''1'', Some ''1'', Some ''2'']),
      (''salario'', Float64 [Some 1000, Some 3000, Some 500])]
     ''uf'' (Some ''salario'') None ''v'' None =
   Inr (Bar_Figure
          [(''uf'', Object [Some ''SP'', Some ''SP'', Some ''RJ'']),
           (''sexo'', Object [Some ''1'', Some ''1'', Some ''2'']),
           (''salario'', Float64 [Some 1000, Some 3000, Some 500])]
          ''uf'' ''salario'' None False
          (''Sal'' @ [CHR 0xC3, CHR 0xA1] @ ''rio por UF'')
          [(''uf'', ''UF''), (''salario'', ''Sal'' @ [CHR 0xC3, CHR 0xA1] @ ''rio'')])"
  by code_simp

end
